theory Spec2Isabelle
  imports Complex_Main
begin

section \<open>Numbers and vectors\<close>

text \<open>
  JavaScript numbers are modelled as real numbers (no rounding error, no NaN, no
  infinities).  \<open>Math.round\<close> rounds to the nearest integer, a tie going up:
  it is \<open>floor (x + 0.5)\<close>.
\<close>

definition Math_round :: "real \<Rightarrow> int" where
  "Math_round x = \<lfloor>x + 1 / 2\<rfloor>"

text \<open>\<open>THREE.Vector3\<close>: a mutable triple of numbers.\<close>

record vec3 =
  vx :: real
  vy :: real
  vz :: real

definition Vector3 :: "real \<Rightarrow> real \<Rightarrow> real \<Rightarrow> vec3" where
  "Vector3 a b c = \<lparr>vx = a, vy = b, vz = c\<rparr>"

section \<open>The level grid (level.js)\<close>

datatype error = TypeError

text \<open>
  A cell as \<open>_parseMap\<close> builds it:
  \<open>{ type: 'floor', height: 0, ceilHeight: 4, isWall: false }\<close>; the property
  \<open>hasItem\<close> is absent (falsy) unless code 2 sets it.
\<close>

record cell =
  ctype :: string
  height :: real
  ceilHeight :: real
  isWall :: bool
  hasItem :: bool

datatype mtype = Imp | Demon

record spawn =
  s_type :: mtype
  s_x :: real
  s_z :: real

record level =
  cellSize :: real
  grid :: "cell list list"
  rows :: nat
  cols :: nat
  monsterSpawns :: "spawn list"

text \<open>
  \<open>mapData[z][x]\<close> for a row index \<open>z\<close> inside the array: an index \<open>x\<close> beyond
  the row's end reads \<open>undefined\<close> (here \<open>None\<close>), it does not raise.
\<close>

definition map_at :: "int list list \<Rightarrow> nat \<Rightarrow> nat \<Rightarrow> int option" where
  "map_at mapData z x =
     (if x < length (mapData ! z) then Some (mapData ! z ! x) else None)"

text \<open>The \<open>switch (val)\<close> of \<open>_parseMap\<close>: the cell a code stands for.\<close>

definition parse_code :: "int option \<Rightarrow> cell" where
  "parse_code val =
     (let c = \<lparr>ctype = ''floor'', height = 0, ceilHeight = 4, isWall = False, hasItem = False\<rparr>
      in if val = Some 1 then c\<lparr>isWall := True, height := 0\<rparr>
         else if val = Some 0 then c\<lparr>height := 0\<rparr>
         else if val = Some 2 then c\<lparr>height := 0, hasItem := True\<rparr>
         else if val = Some 3 then c\<lparr>height := 3 / 2\<rparr>
         else if val = Some 4 then c\<lparr>height := 3\<rparr>
         else if val = Some 5 then c\<lparr>height := - 2\<rparr>
         else if val = Some 6 then c\<lparr>height := 0\<rparr>
         else if val = Some 7 then c\<lparr>height := 0\<rparr>
         else c\<lparr>height := 0\<rparr>)"

text \<open>The spawn records the same \<open>switch\<close> pushes for the cell \<open>(x, z)\<close>.\<close>

definition parse_spawns :: "real \<Rightarrow> int option \<Rightarrow> nat \<Rightarrow> nat \<Rightarrow> spawn list" where
  "parse_spawns cs val x z =
     (if val = Some 6 then [\<lparr>s_type = Imp, s_x = real x * cs, s_z = real z * cs\<rparr>]
      else if val = Some 7 then [\<lparr>s_type = Demon, s_x = real x * cs, s_z = real z * cs\<rparr>]
      else [])"

text \<open>
  \<open>_parseMap\<close>.  \<open>mapData[0].length\<close> on an empty array reads \<open>length\<close> of
  \<open>undefined\<close>: a \<open>TypeError\<close>.  Otherwise the two nested loops fill every cell
  \<open>grid[z][x]\<close> for \<open>z < rows\<close>, \<open>x < cols\<close>, row by row, and push the spawns
  in the same order.  There is no check of the rows' lengths.
\<close>

definition Level_parseMap :: "level \<Rightarrow> int list list \<Rightarrow> error + level" where
  "Level_parseMap this mapData =
     (case mapData of
        [] \<Rightarrow> Inl TypeError
      | row0 # _ \<Rightarrow>
          let rs = length mapData; cs = length row0
          in Inr (this\<lparr>
               rows := rs, cols := cs,
               grid := map (\<lambda>z. map (\<lambda>x. parse_code (map_at mapData z x)) [0..<cs]) [0..<rs],
               monsterSpawns := monsterSpawns this @
                 concat (map (\<lambda>z. concat (map (\<lambda>x.
                   parse_spawns (cellSize this) (map_at mapData z x) x z) [0..<cs])) [0..<rs])\<rparr>))"

text \<open>
  The constructor: \<open>cellSize = 4\<close>, empty grid and spawn list, then \<open>_parseMap\<close>.
  (Textures and the meshes of \<open>generate\<close> are rendering and are left out.)
\<close>

definition Level_new :: "int list list \<Rightarrow> error + level" where
  "Level_new mapData =
     Level_parseMap \<lparr>cellSize = 4, grid = [], rows = 0, cols = 0, monsterSpawns = []\<rparr> mapData"

text \<open>
  \<open>isWall\<close> and \<open>getFloorHeight\<close>.  The array reads happen only under the
  bounds test, as in the source.
\<close>

definition Level_isWall :: "level \<Rightarrow> real \<Rightarrow> real \<Rightarrow> bool" where
  "Level_isWall this x z =
     (let gridX = Math_round (x / cellSize this);
          gridZ = Math_round (z / cellSize this)
      in if gridZ \<ge> 0 \<and> gridZ < int (rows this) \<and> gridX \<ge> 0 \<and> gridX < int (cols this)
         then isWall (grid this ! nat gridZ ! nat gridX)
         else True)"

definition Level_getFloorHeight :: "level \<Rightarrow> real \<Rightarrow> real \<Rightarrow> real" where
  "Level_getFloorHeight this x z =
     (let gridX = Math_round (x / cellSize this);
          gridZ = Math_round (z / cellSize this)
      in if gridZ \<ge> 0 \<and> gridZ < int (rows this) \<and> gridX \<ge> 0 \<and> gridX < int (cols this)
         then height (grid this ! nat gridZ ! nat gridX)
         else - 100)"

text \<open>
  A grid has the shape its \<open>rows\<close> and \<open>cols\<close> say; every level the constructor
  returns has.
\<close>

definition wf_level :: "level \<Rightarrow> bool" where
  "wf_level lv =
     (length (grid lv) = rows lv \<and> list_all (\<lambda>r. length r = cols lv) (grid lv))"

section \<open>Vector operations of the library\<close>

text \<open>
  The \<open>THREE.Vector3\<close> methods the game calls.  \<open>normalize\<close> divides by the
  length, or by 1 when the length is 0 (\<open>length() || 1\<close>); \<open>angleTo\<close> returns
  \<open>\<pi>/2\<close> when a vector is zero and clamps the cosine to \<open>[-1, 1]\<close>.
\<close>

definition v_length :: "vec3 \<Rightarrow> real" where
  "v_length v = sqrt (vx v * vx v + vy v * vy v + vz v * vz v)"

definition multiplyScalar :: "vec3 \<Rightarrow> real \<Rightarrow> vec3" where
  "multiplyScalar v s = \<lparr>vx = vx v * s, vy = vy v * s, vz = vz v * s\<rparr>"

definition normalize :: "vec3 \<Rightarrow> vec3" where
  "normalize v =
     (let l = v_length v; d = (if l = 0 then 1 else l)
      in \<lparr>vx = vx v / d, vy = vy v / d, vz = vz v / d\<rparr>)"

definition v_add :: "vec3 \<Rightarrow> vec3 \<Rightarrow> vec3" where
  "v_add a b = \<lparr>vx = vx a + vx b, vy = vy a + vy b, vz = vz a + vz b\<rparr>"

definition subVectors :: "vec3 \<Rightarrow> vec3 \<Rightarrow> vec3" where
  "subVectors a b = \<lparr>vx = vx a - vx b, vy = vy a - vy b, vz = vz a - vz b\<rparr>"

definition negate :: "vec3 \<Rightarrow> vec3" where
  "negate v = \<lparr>vx = - vx v, vy = - vy v, vz = - vz v\<rparr>"

definition cross :: "vec3 \<Rightarrow> vec3 \<Rightarrow> vec3" where
  "cross a b =
     \<lparr>vx = vy a * vz b - vz a * vy b,
      vy = vz a * vx b - vx a * vz b,
      vz = vx a * vy b - vy a * vx b\<rparr>"

definition dot :: "vec3 \<Rightarrow> vec3 \<Rightarrow> real" where
  "dot a b = vx a * vx b + vy a * vy b + vz a * vz b"

definition distanceTo :: "vec3 \<Rightarrow> vec3 \<Rightarrow> real" where
  "distanceTo a b = v_length (subVectors a b)"

definition clamp :: "real \<Rightarrow> real \<Rightarrow> real \<Rightarrow> real" where
  "clamp v lo hi = max lo (min hi v)"

definition angleTo :: "vec3 \<Rightarrow> vec3 \<Rightarrow> real" where
  "angleTo a b =
     (let denominator = sqrt (dot a a * dot b b)
      in if denominator = 0 then pi / 2
         else arccos (clamp (dot a b / denominator) (- 1) 1))"

section \<open>The player (player.js)\<close>

text \<open>
  The fields of \<open>Player\<close> that movement reads or writes.  \<open>p_isLocked\<close>,
  \<open>p_position\<close> and \<open>p_quaternion\<close> are \<open>controls.isLocked\<close> and the
  position and orientation of \<open>controls.getObject()\<close>; the orientation is kept as
  the rotation \<open>applyQuaternion\<close> performs with it.  The weapon mesh and its
  bobbing are rendering and are left out.
\<close>

record player =
  p_isLocked :: bool
  p_position :: vec3
  p_quaternion :: "vec3 \<Rightarrow> vec3"
  p_speed :: real
  p_size :: real
  p_height :: real
  p_gravity :: real
  p_jumpStrength :: real
  p_stepHeight :: real
  p_onGround :: bool
  p_moveForward :: bool
  p_moveBackward :: bool
  p_moveLeft :: bool
  p_moveRight :: bool
  p_velocity :: vec3
  p_direction :: vec3

definition applyQuaternion :: "vec3 \<Rightarrow> (vec3 \<Rightarrow> vec3) \<Rightarrow> vec3" where
  "applyQuaternion v q = q v"

text \<open>The constructor's constants; a fresh camera sits at the origin, unrotated.\<close>

definition Player_new :: player where
  "Player_new =
     \<lparr>p_isLocked = False, p_position = Vector3 0 0 0, p_quaternion = (\<lambda>v. v),
      p_speed = 10, p_size = 6 / 10, p_height = 16 / 10, p_gravity = 30,
      p_jumpStrength = 12, p_stepHeight = 11 / 10, p_onGround = False,
      p_moveForward = False, p_moveBackward = False, p_moveLeft = False,
      p_moveRight = False, p_velocity = Vector3 0 0 0, p_direction = Vector3 0 0 0\<rparr>"

definition Player_jump :: "player \<Rightarrow> player" where
  "Player_jump this =
     (if p_onGround this
      then this\<lparr>p_velocity := (p_velocity this)\<lparr>vy := p_jumpStrength this\<rparr>, p_onGround := False\<rparr>
      else this)"

text \<open>\<open>_canMoveTo(x, z, currentY)\<close>.\<close>

definition Player_canMoveTo :: "level \<Rightarrow> player \<Rightarrow> real \<Rightarrow> real \<Rightarrow> real \<Rightarrow> bool" where
  "Player_canMoveTo lv this x z currentY =
     (if Level_isWall lv x z then False
      else let targetY = Level_getFloorHeight lv x z
           in if targetY > currentY + p_stepHeight this then False else True)"

text \<open>
  \<open>update(delta)\<close>, in the order of the source.  First damping, gravity, the move
  direction from the keys and the acceleration (lines 124 to 141).
\<close>

definition Player_accelerate :: "real \<Rightarrow> player \<Rightarrow> player" where
  "Player_accelerate delta this =
     (let v0 = p_velocity this;
          v1 = v0\<lparr>vx := vx v0 - vx v0 * 10 * delta\<rparr>;
          v2 = v1\<lparr>vz := vz v1 - vz v1 * 10 * delta\<rparr>;
          v3 = v2\<lparr>vy := vy v2 - p_gravity this * delta\<rparr>;
          d0 = p_direction this;
          d1 = d0\<lparr>vz := of_bool (p_moveBackward this) - of_bool (p_moveForward this)\<rparr>;
          d2 = d1\<lparr>vx := of_bool (p_moveLeft this) - of_bool (p_moveRight this)\<rparr>;
          d3 = normalize d2;
          v4 = (if p_moveForward this \<or> p_moveBackward this
                then v3\<lparr>vz := vz v3 - vz d3 * 400 * delta\<rparr> else v3);
          v5 = (if p_moveLeft this \<or> p_moveRight this
                then v4\<lparr>vx := vx v4 - vx d3 * 400 * delta\<rparr> else v4)
      in this\<lparr>p_velocity := v5, p_direction := d3\<rparr>)"

text \<open>The displacement \<open>(deltaX, deltaZ, deltaY)\<close> of this tick (lines 143 to 156).\<close>

definition Player_deltas :: "real \<Rightarrow> player \<Rightarrow> real \<times> real \<times> real" where
  "Player_deltas delta this =
     (let forward0 = applyQuaternion (Vector3 0 0 (- 1)) (p_quaternion this);
          right0 = applyQuaternion (Vector3 1 0 0) (p_quaternion this);
          forward = normalize (forward0\<lparr>vy := 0\<rparr>);
          right = normalize (right0\<lparr>vy := 0\<rparr>);
          v = p_velocity this
      in ((vx right * vx v + vx forward * vz v) * delta,
          (vz right * vx v + vz forward * vz v) * delta,
          vy v * delta))"

text \<open>
  The X test (lines 164 to 169) and the Z test (lines 171 to 176).  \<open>currentPos\<close> is
  the clone taken before either axis moves; the Z test reads the x-coordinate of the
  object itself, which the X step may have changed.
\<close>

definition Player_moveX :: "level \<Rightarrow> real \<Rightarrow> vec3 \<Rightarrow> real \<Rightarrow> player \<Rightarrow> player" where
  "Player_moveX lv deltaX currentPos currentFloorY this =
     (if Player_canMoveTo lv this (vx currentPos + deltaX) (vz currentPos) currentFloorY
      then this\<lparr>p_position := (p_position this)\<lparr>vx := vx (p_position this) + deltaX\<rparr>\<rparr>
      else this\<lparr>p_velocity := (p_velocity this)\<lparr>vx := 0\<rparr>\<rparr>)"

definition Player_moveZ :: "level \<Rightarrow> real \<Rightarrow> vec3 \<Rightarrow> real \<Rightarrow> player \<Rightarrow> player" where
  "Player_moveZ lv deltaZ currentPos currentFloorY this =
     (if Player_canMoveTo lv this (vx (p_position this)) (vz currentPos + deltaZ) currentFloorY
      then this\<lparr>p_position := (p_position this)\<lparr>vz := vz (p_position this) + deltaZ\<rparr>\<rparr>
      else this\<lparr>p_velocity := (p_velocity this)\<lparr>vz := 0\<rparr>\<rparr>)"

text \<open>Vertical movement and the snap to the floor (lines 178 to 189).\<close>

definition Player_vertical :: "level \<Rightarrow> real \<Rightarrow> player \<Rightarrow> player" where
  "Player_vertical lv deltaY this =
     (let pos = (p_position this)\<lparr>vy := vy (p_position this) + deltaY\<rparr>;
          newFloorY = Level_getFloorHeight lv (vx pos) (vz pos)
      in if vy pos < newFloorY + p_height this
         then this\<lparr>p_position := pos\<lparr>vy := newFloorY + p_height this\<rparr>,
                   p_velocity := (p_velocity this)\<lparr>vy := 0\<rparr>,
                   p_onGround := True\<rparr>
         else this\<lparr>p_position := pos, p_onGround := False\<rparr>)"

definition Player_update :: "level \<Rightarrow> real \<Rightarrow> player \<Rightarrow> player" where
  "Player_update lv delta this =
     (if \<not> p_isLocked this then this
      else
        let p1 = Player_accelerate delta this;
            (deltaX, deltaZ, deltaY) = Player_deltas delta p1;
            currentPos = p_position p1;
            currentFloorY = Level_getFloorHeight lv (vx currentPos) (vz currentPos);
            p2 = Player_moveX lv deltaX currentPos currentFloorY p1;
            p3 = Player_moveZ lv deltaZ currentPos currentFloorY p2
        in Player_vertical lv deltaY p3)"

section \<open>Monsters (monster.js)\<close>

text \<open>
  A scene object as the hit tests see it: its identity (\<open>===\<close> compares
  \<open>obj_id\<close>), whether it is a \<open>Mesh\<close> (a \<open>Sprite\<close> is not), its position
  and its vertical scale.
\<close>

record object3d =
  obj_id :: nat
  obj_isMesh :: bool
  obj_position :: vec3
  obj_scale_y :: real

datatype mstate = Idle | Chase | Dead

text \<open>
  \<open>m_timers\<close> counts the callbacks that \<open>takeDamage\<close> has handed to
  \<open>setTimeout\<close> and that have not run yet; they all have the same body, so their
  number is all there is to know of them.
\<close>

record monster =
  m_type :: mtype
  m_position :: vec3
  m_health :: int
  m_speed :: real
  m_state :: mstate
  m_mesh :: object3d
  m_minDistance :: real
  m_strafeTimer :: real
  m_strafeDir :: real
  m_timers :: nat

text \<open>
  The constructor; \<open>mid\<close> is the identity of the sprite \<open>_createMesh\<close> makes.
  (The repository holds a second, earlier copy of the class, which chases from a
  distance of 20 and does not strafe; its constructor fields, its test for the dead
  state, \<open>takeDamage\<close> and \<open>die\<close> are the same.)
\<close>

definition Monster_new :: "nat \<Rightarrow> mtype \<Rightarrow> real \<Rightarrow> real \<Rightarrow> monster" where
  "Monster_new mid ty x z =
     \<lparr>m_type = ty, m_position = Vector3 x 0 z,
      m_health = (if ty = Demon then 100 else 40),
      m_speed = (if ty = Demon then 6 else 3),
      m_state = Idle,
      m_mesh = \<lparr>obj_id = mid, obj_isMesh = False, obj_position = Vector3 x 0 z,
                obj_scale_y = (if ty = Demon then 5 / 2 else 2)\<rparr>,
      m_minDistance = 8, m_strafeTimer = 0, m_strafeDir = 1, m_timers = 0\<rparr>"

definition Monster_die :: "monster \<Rightarrow> monster" where
  "Monster_die this =
     this\<lparr>m_state := Dead,
          m_mesh := (m_mesh this)\<lparr>
            obj_scale_y := 1 / 2,
            obj_position := (obj_position (m_mesh this))\<lparr>vy := vy (obj_position (m_mesh this)) - 1 / 2\<rparr>\<rparr>\<rparr>"

text \<open>
  \<open>takeDamage(amount)\<close>: the health changes at once; the test \<open>health <= 0\<close> and
  \<open>die()\<close> are in the callback given to \<open>setTimeout(..., 100)\<close>, which
  \<open>Monster_timeout\<close> runs.  (The colour flash is rendering.)
\<close>

definition Monster_takeDamage :: "int \<Rightarrow> monster \<Rightarrow> monster" where
  "Monster_takeDamage amount this =
     this\<lparr>m_health := m_health this - amount, m_timers := Suc (m_timers this)\<rparr>"

definition Monster_timeout :: "monster \<Rightarrow> monster" where
  "Monster_timeout this =
     (case m_timers this of
        0 \<Rightarrow> this
      | Suc n \<Rightarrow>
          let t = this\<lparr>m_timers := n\<rparr>
          in if m_health t \<le> 0 then Monster_die t else t)"

text \<open>
  The chase branch of \<open>update\<close> up to the normalised move vector (lines 73 to
  105).  \<open>r1\<close> and \<open>r2\<close> are the two values \<open>Math.random()\<close> returns when the
  strafe timer runs out.
\<close>

definition Monster_moveVec :: "real \<Rightarrow> vec3 \<Rightarrow> real \<Rightarrow> real \<Rightarrow> real \<Rightarrow> monster \<Rightarrow> vec3 \<times> monster" where
  "Monster_moveVec delta playerPos dst r1 r2 this =
     (let direction = normalize ((subVectors playerPos (m_position this))\<lparr>vy := 0\<rparr>);
          moveVec0 = Vector3 0 0 0;
          moveVec1 = (if dst > m_minDistance this then v_add moveVec0 direction
                      else if dst < m_minDistance this - 2 then v_add moveVec0 (negate direction)
                      else moveVec0)
      in if dst < 20
         then
           let t1 = this\<lparr>m_strafeTimer := m_strafeTimer this - delta\<rparr>;
               t2 = (if m_strafeTimer t1 \<le> 0
                     then t1\<lparr>m_strafeTimer := 1 + r1 * 2,
                             m_strafeDir := (if r2 > 1 / 2 then 1 else - 1)\<rparr>
                     else t1);
               right = normalize (cross (Vector3 0 1 0) direction);
               moveVec2 = v_add moveVec1 (multiplyScalar right (m_strafeDir t2 * (8 / 10)))
           in (normalize moveVec2, t2)
         else (normalize moveVec1, this))"

text \<open>
  \<open>update(delta, player)\<close>; \<open>playerPos\<close> is \<open>player.getObject().position\<close>.
  The source's \<open>dist\<close> is written \<open>dst\<close> here and below.
\<close>

definition Monster_update :: "level \<Rightarrow> real \<Rightarrow> vec3 \<Rightarrow> real \<Rightarrow> real \<Rightarrow> monster \<Rightarrow> monster" where
  "Monster_update lv delta playerPos r1 r2 this =
     (if m_state this = Dead then this
      else
        let dst = distanceTo (m_position this) playerPos;
            t1 = (if dst < 30 then this\<lparr>m_state := Chase\<rparr> else this);
            t4 = (if m_state t1 = Chase
                  then
                    let (moveVec, t2) = Monster_moveVec delta playerPos dst r1 r2 t1;
                        moveDist = m_speed t2 * delta;
                        nextX = vx (m_position t2) + vx moveVec * moveDist;
                        nextZ = vz (m_position t2) + vz moveVec * moveDist;
                        t3 = (if \<not> Level_isWall lv nextX (vz (m_position t2))
                              then t2\<lparr>m_position := (m_position t2)\<lparr>vx := nextX\<rparr>\<rparr> else t2)
                    in (if \<not> Level_isWall lv (vx (m_position t3)) nextZ
                        then t3\<lparr>m_position := (m_position t3)\<lparr>vz := nextZ\<rparr>\<rparr> else t3)
                  else t1);
            floorH = Level_getFloorHeight lv (vx (m_position t4)) (vz (m_position t4));
            t5 = t4\<lparr>m_position := (m_position t4)\<lparr>vy := floorH + (if m_type t4 = Demon then 5 / 4 else 1)\<rparr>\<rparr>
        in t5\<lparr>m_mesh := (m_mesh t5)\<lparr>obj_position := m_position t5\<rparr>\<rparr>)"

text \<open>What can happen to a monster: a tick, a hit, or a pending callback running.\<close>

datatype monster_event = Update real vec3 real real | TakeDamage int | Timeout

fun Monster_step :: "level \<Rightarrow> monster \<Rightarrow> monster_event \<Rightarrow> monster" where
  "Monster_step lv m (Update delta playerPos r1 r2) = Monster_update lv delta playerPos r1 r2 m"
| "Monster_step lv m (TakeDamage amount) = Monster_takeDamage amount m"
| "Monster_step lv m Timeout = Monster_timeout m"

fun damage_of :: "monster_event \<Rightarrow> int" where
  "damage_of (TakeDamage amount) = amount"
| "damage_of _ = 0"

section \<open>The instant shot (main.js)\<close>

text \<open>
  The loop of \<open>player.onShoot\<close> over the monsters: \<open>continue\<close> on a dead one,
  \<open>break\<close> after the first one hit.  \<open>playerDir\<close> is what
  \<open>camera.getWorldDirection\<close> returns.
\<close>

fun onShoot :: "vec3 \<Rightarrow> vec3 \<Rightarrow> monster list \<Rightarrow> monster list" where
  "onShoot playerPos playerDir [] = []"
| "onShoot playerPos playerDir (monster # rest) =
     (if m_state monster = Dead then monster # onShoot playerPos playerDir rest
      else
        let toMonster = subVectors (m_position monster) playerPos;
            dst = v_length toMonster;
            angle = angleTo playerDir (normalize toMonster)
        in if dst < 50 \<and> angle < 2 / 10
           then Monster_takeDamage 20 monster # rest
           else monster # onShoot playerPos playerDir rest)"

text \<open>A valid target, in the words of the specification.\<close>

definition valid_target :: "vec3 \<Rightarrow> vec3 \<Rightarrow> monster \<Rightarrow> bool" where
  "valid_target playerPos playerDir m =
     (m_state m \<noteq> Dead \<and> distanceTo (m_position m) playerPos < 50 \<and>
      angleTo playerDir (normalize (subVectors (m_position m) playerPos)) < 2 / 10)"

section \<open>Projectiles (monster.js, second part)\<close>

record projectile =
  pr_speed :: real
  pr_direction :: vec3
  pr_position :: vec3
  pr_lastPosition :: vec3
  pr_alive :: bool

definition Projectile_new :: "vec3 \<Rightarrow> vec3 \<Rightarrow> projectile" where
  "Projectile_new position direction =
     \<lparr>pr_speed = 40, pr_direction = normalize direction, pr_position = position,
      pr_lastPosition = position, pr_alive = True\<rparr>"

text \<open>
  The ray of \<open>THREE.Raycaster\<close> and one intersection.  What a ray hits on one
  object is the library's geometry and is a parameter \<open>rc\<close>: the distance and the
  point of each intersection of the ray, up to \<open>far\<close>, with that object.
  \<open>intersectObjects\<close> collects them over the objects and sorts them by
  distance, nearest first (a stable sort).
\<close>

record ray =
  r_origin :: vec3
  r_direction :: vec3
  r_far :: real

record intersection =
  i_distance :: real
  i_point :: vec3
  i_object :: object3d

type_synonym raycast = "ray \<Rightarrow> object3d \<Rightarrow> (real \<times> vec3) list"

definition raycast_object :: "raycast \<Rightarrow> ray \<Rightarrow> object3d \<Rightarrow> intersection list" where
  "raycast_object rc r ob =
     map (\<lambda>(d, p). \<lparr>i_distance = d, i_point = p, i_object = ob\<rparr>) (rc r ob)"

definition intersectObjects :: "raycast \<Rightarrow> ray \<Rightarrow> object3d list \<Rightarrow> intersection list" where
  "intersectObjects rc r objects =
     sort_key i_distance (concat (map (raycast_object rc r) objects))"

datatype hit_type = Wall | MonsterHit

definition Projectile_destroy :: "projectile \<Rightarrow> projectile" where
  "Projectile_destroy this = this\<lparr>pr_alive := False\<rparr>"

text \<open>
  \<open>monsters.find(m => m.mesh === hit.object)\<close> followed by \<open>takeDamage(20)\<close> on
  the monster found, if any.
\<close>

fun damage_found :: "object3d \<Rightarrow> monster list \<Rightarrow> monster list" where
  "damage_found ob [] = []"
| "damage_found ob (m # ms) =
     (if obj_id (m_mesh m) = obj_id ob then Monster_takeDamage 20 m # ms
      else m # damage_found ob ms)"

definition Projectile_onHit ::
  "intersection \<Rightarrow> hit_type \<Rightarrow> monster list \<Rightarrow> projectile \<Rightarrow> projectile \<times> monster list" where
  "Projectile_onHit hit ty monsters this =
     (let monsters' = (if ty = MonsterHit then damage_found (i_object hit) monsters else monsters)
      in (Projectile_destroy this, monsters'))"

text \<open>The choice between the first level hit and the first monster hit (lines 205 to 219).\<close>

definition closest_hit ::
  "intersection list \<Rightarrow> intersection list \<Rightarrow> (intersection \<times> hit_type) option" where
  "closest_hit levelHits monsterHits =
     (let hit = (case levelHits of [] \<Rightarrow> None | h # _ \<Rightarrow> Some (h, Wall))
      in case monsterHits of
           [] \<Rightarrow> hit
         | mh # _ \<Rightarrow>
             (case hit of
                None \<Rightarrow> Some (mh, MonsterHit)
              | Some (h, _) \<Rightarrow> if i_distance mh < i_distance h then Some (mh, MonsterHit) else hit))"

text \<open>The hit of one tick's segment, if any (lines 190 to 219).\<close>

definition Projectile_findHit ::
  "raycast \<Rightarrow> ray \<Rightarrow> object3d list \<Rightarrow> monster list \<Rightarrow> (intersection \<times> hit_type) option" where
  "Projectile_findHit rc r levelChildren monsters =
     (let levelMeshes = filter obj_isMesh levelChildren;
          levelHits = intersectObjects rc r levelMeshes;
          monsterMeshes = map m_mesh (filter (\<lambda>m. m_state m \<noteq> Dead) monsters);
          monsterHits = intersectObjects rc r monsterMeshes
      in closest_hit levelHits monsterHits)"

text \<open>
  \<open>update(delta, level, monsters, camera)\<close>; \<open>levelChildren\<close> is
  \<open>level.levelGroup.children\<close>.
\<close>

definition Projectile_update ::
  "raycast \<Rightarrow> real \<Rightarrow> object3d list \<Rightarrow> monster list \<Rightarrow> projectile \<Rightarrow> projectile \<times> monster list" where
  "Projectile_update rc delta levelChildren monsters this =
     (if \<not> pr_alive this then (this, monsters)
      else
        let t1 = this\<lparr>pr_lastPosition := pr_position this\<rparr>;
            displacement = multiplyScalar (pr_direction t1) (pr_speed t1 * delta);
            t2 = t1\<lparr>pr_position := v_add (pr_position t1) displacement\<rparr>;
            dst = v_length displacement;
            (t3, monsters') =
              (if dst > 0
               then
                 let r = \<lparr>r_origin = pr_lastPosition t2, r_direction = pr_direction t2, r_far = dst\<rparr>
                 in case Projectile_findHit rc r levelChildren monsters of
                      None \<Rightarrow> (t2, monsters)
                    | Some (hit, hitType) \<Rightarrow> Projectile_onHit hit hitType monsters t2
               else (t2, monsters))
        in ((if v_length (pr_position t3) > 1000 then Projectile_destroy t3 else t3), monsters'))"

section \<open>The candidates of a projectile's tick\<close>

text \<open>
  The ray a tick casts: from the position before the move, along the direction, as far
  as the displacement is long.  \<open>Projectile_moved\<close> is the projectile after lines
  180 to 185.
\<close>

definition Projectile_ray :: "real \<Rightarrow> projectile \<Rightarrow> ray" where
  "Projectile_ray delta this =
     \<lparr>r_origin = pr_position this, r_direction = pr_direction this,
      r_far = v_length (multiplyScalar (pr_direction this) (pr_speed this * delta))\<rparr>"

definition Projectile_moved :: "real \<Rightarrow> projectile \<Rightarrow> projectile" where
  "Projectile_moved delta this =
     this\<lparr>pr_lastPosition := pr_position this,
          pr_position := v_add (pr_position this)
            (multiplyScalar (pr_direction this) (pr_speed this * delta))\<rparr>"

text \<open>
  All intersections of the ray with the level's meshes, and with the sprites of the
  monsters that are not dead, in no particular order.
\<close>

definition level_candidates :: "raycast \<Rightarrow> ray \<Rightarrow> object3d list \<Rightarrow> intersection list" where
  "level_candidates rc r levelChildren =
     concat (map (raycast_object rc r) (filter obj_isMesh levelChildren))"

definition monster_candidates :: "raycast \<Rightarrow> ray \<Rightarrow> monster list \<Rightarrow> intersection list" where
  "monster_candidates rc r monsters =
     concat (map (raycast_object rc r) (map m_mesh (filter (\<lambda>m. m_state m \<noteq> Dead) monsters)))"

text \<open>What a chosen hit is compared by: its distance and its kind.\<close>

definition hit_key :: "(intersection \<times> hit_type) option \<Rightarrow> (real \<times> hit_type) option" where
  "hit_key h = map_option (\<lambda>(i, ty). (i_distance i, ty)) h"

text \<open>
  The nearest distance among two lists of intersections and the kind it belongs to, a
  level hit winning a tie.
\<close>

definition nearest :: "intersection list \<Rightarrow> intersection list \<Rightarrow> (real \<times> hit_type) option" where
  "nearest ls ms =
     (if ms \<noteq> [] \<and> (ls = [] \<or> Min (i_distance ` set ms) < Min (i_distance ` set ls))
      then Some (Min (i_distance ` set ms), MonsterHit)
      else if ls \<noteq> [] then Some (Min (i_distance ` set ls), Wall)
      else None)"

section \<open>Levels that differ in their ceilings only\<close>

text \<open>A level with the ceiling height of every cell overwritten.\<close>

definition erase_ceil :: "level \<Rightarrow> level" where
  "erase_ceil lv = lv\<lparr>grid := map (map (\<lambda>c. c\<lparr>ceilHeight := 0\<rparr>)) (grid lv)\<rparr>"

section \<open>A small level and some players, for concrete runs\<close>

text \<open>
  A walled four by four map: a floor cell and a step in row 1, a high platform and a
  floor cell in row 2.
\<close>

definition arena_map :: "int list list" where
  "arena_map = [[1, 1, 1, 1], [1, 0, 3, 1], [1, 4, 0, 1], [1, 1, 1, 1]]"

definition arena :: level where
  "arena = projr (Level_new arena_map)"

definition low_arena :: level where
  "low_arena = arena\<lparr>grid := map (map (\<lambda>c. c\<lparr>ceilHeight := 1\<rparr>)) (grid arena)\<rparr>"

text \<open>
  A player moving diagonally near the edge of the floor cell, one standing still on
  it, and one standing on the high platform.
\<close>

definition walker :: player where
  "walker = Player_new\<lparr>p_isLocked := True, p_position := Vector3 4 (16 / 10) (59 / 10),
     p_velocity := Vector3 30 0 (- 30)\<rparr>"

definition stander :: player where
  "stander = Player_new\<lparr>p_isLocked := True, p_position := Vector3 4 (16 / 10) 4\<rparr>"

definition climber :: player where
  "climber = Player_new\<lparr>p_isLocked := True, p_position := Vector3 4 (46 / 10) 8\<rparr>"

text \<open>
  Three imps: one killed by two hits, and two alive in front of a shooter at the
  origin who looks down the negative Z axis, the farther one first in the list.
\<close>

definition dead_imp :: monster where
  "dead_imp = Monster_timeout (Monster_takeDamage 20 (Monster_takeDamage 20 (Monster_new 0 Imp 4 4)))"

definition far_imp :: monster where
  "far_imp = Monster_new 1 Imp 0 (- 10)"

definition near_imp :: monster where
  "near_imp = Monster_new 2 Imp 0 (- 5)"

text \<open>An imp killed by two hits that lies in front of the same shooter, nearest of all.\<close>

definition fallen_imp :: monster where
  "fallen_imp =
     Monster_timeout (Monster_takeDamage 20 (Monster_takeDamage 20 (Monster_new 3 Imp 0 (- 3))))"

text \<open>
  Two simple geometries for the ray test: one where nothing is ever hit, and one for
  rays down the negative Z axis, where an object is hit at the distance its position
  lies ahead of the ray's origin.
\<close>

definition no_cast :: raycast where
  "no_cast r ob = []"

definition z_cast :: raycast where
  "z_cast r ob =
     (let d = vz (r_origin r) - vz (obj_position ob)
      in if 0 \<le> d \<and> d \<le> r_far r then [(d, obj_position ob)] else [])"

definition wall8 :: object3d where
  "wall8 = \<lparr>obj_id = 7, obj_isMesh = True, obj_position = Vector3 0 2 (- 8), obj_scale_y = 1\<rparr>"

text \<open>
  A projectile fired down the negative Z axis, and two fired along the X axis, one
  of them from \<open>x = 990\<close>.
\<close>

definition bolt :: projectile where
  "bolt = Projectile_new (Vector3 0 1 0) (Vector3 0 0 (- 1))"

definition stray_a :: projectile where
  "stray_a = Projectile_new (Vector3 990 0 0) (Vector3 1 0 0)"

definition stray_b :: projectile where
  "stray_b = Projectile_new (Vector3 0 0 0) (Vector3 1 0 0)"

section \<open>Properties of the level grid\<close>

lemma Math_round_unique:
  assumes "of_int i - 1 / 2 \<le> x" and "x < of_int i + 1 / 2"
  shows "Math_round x = i"
  unfolding Math_round_def using assms by (intro floor_unique) auto

lemma Level_new_fields:
  assumes "Level_new mapData = Inr lv"
  shows "cellSize lv = 4" and "rows lv = length mapData" and "cols lv = length (hd mapData)"
    and "grid lv = map (\<lambda>z. map (\<lambda>x. parse_code (map_at mapData z x)) [0..<cols lv]) [0..<rows lv]"
  using assms by (auto simp: Level_new_def Level_parseMap_def Let_def split: list.splits)

lemma Level_new_cell:
  assumes "Level_new mapData = Inr lv" and "j < rows lv" and "i < cols lv"
  shows "grid lv ! j ! i = parse_code (map_at mapData j i)"
  using assms by (subst Level_new_fields(4)[OF assms(1)]) simp

lemma Level_new_wf:
  assumes "Level_new mapData = Inr lv"
  shows "wf_level lv"
  unfolding wf_level_def
  by (subst (1 2) Level_new_fields(4)[OF assms]) (simp add: list_all_iff)

lemma arena_new: "Level_new arena_map = Inr arena"
  by (simp add: arena_def Level_new_def Level_parseMap_def arena_map_def)

lemma arena_fields: "cellSize arena = 4" "rows arena = 4" "cols arena = 4"
  using Level_new_fields[OF arena_new] by (simp_all add: arena_map_def)

lemma arena_cell:
  "j < 4 \<Longrightarrow> i < 4 \<Longrightarrow> grid arena ! j ! i = parse_code (map_at arena_map j i)"
  using Level_new_cell[OF arena_new] by (simp add: arena_fields)

lemma arena_cells:
  "grid arena ! Suc 0 ! Suc 0 = parse_code (Some 0)"
  "grid arena ! Suc 0 ! 2 = parse_code (Some 3)"
  "grid arena ! 2 ! Suc 0 = parse_code (Some 4)"
  "grid arena ! 2 ! 2 = parse_code (Some 0)"
  by (simp_all add: arena_cell map_at_def arena_map_def)

lemma arena_queries:
  "Level_getFloorHeight arena 4 4 = 0"
  "\<not> Level_isWall arena 4 4"
  "Level_getFloorHeight arena 4 8 = 3"
  "\<not> Level_isWall arena 4 8"
  "Level_getFloorHeight arena 4 (59 / 10) = 0"
  "\<not> Level_isWall arena (19 / 4) (59 / 10)"
  "Level_getFloorHeight arena (19 / 4) (59 / 10) = 0"
  "Level_getFloorHeight arena (19 / 4) (133 / 20) = 3"
  by (simp_all add: Level_isWall_def Level_getFloorHeight_def arena_fields Math_round_def
      arena_cells parse_code_def)

lemma arena_wf: "wf_level arena"
  using arena_new by (rule Level_new_wf)

text \<open>
  C3: for every world coordinate pair \<open>(x, z)\<close> of a constructed level, with \<open>i\<close>
  and \<open>j\<close> the integers nearest to \<open>x / cellSize\<close> and \<open>z / cellSize\<close> (a tie
  going up): when \<open>(j, i)\<close> is inside the grid, \<open>isWall\<close> and \<open>getFloorHeight\<close>
  return the wall flag and the floor height of the cell \<open>grid[j][i]\<close>, which is the
  cell parsed from \<open>mapData[j][i]\<close>; otherwise \<open>isWall\<close> is true and
  \<open>getFloorHeight\<close> is \<open>-100\<close>.
\<close>

theorem C3_point_queries:
  assumes "Level_new mapData = Inr lv"
    and "of_int i - 1 / 2 \<le> x / cellSize lv" and "x / cellSize lv < of_int i + 1 / 2"
    and "of_int j - 1 / 2 \<le> z / cellSize lv" and "z / cellSize lv < of_int j + 1 / 2"
  shows "if 0 \<le> j \<and> j < int (rows lv) \<and> 0 \<le> i \<and> i < int (cols lv)
         then Level_isWall lv x z = isWall (grid lv ! nat j ! nat i) \<and>
              Level_getFloorHeight lv x z = height (grid lv ! nat j ! nat i) \<and>
              grid lv ! nat j ! nat i = parse_code (map_at mapData (nat j) (nat i))
         else Level_isWall lv x z \<and> Level_getFloorHeight lv x z = - 100"
proof -
  have gx: "Math_round (x / cellSize lv) = i"
    using assms(2,3) by (rule Math_round_unique)
  have gz: "Math_round (z / cellSize lv) = j"
    using assms(4,5) by (rule Math_round_unique)
  show ?thesis
  proof (cases "0 \<le> j \<and> j < int (rows lv) \<and> 0 \<le> i \<and> i < int (cols lv)")
    case True
    then have "nat j < rows lv" and "nat i < cols lv" by auto
    then have "grid lv ! nat j ! nat i = parse_code (map_at mapData (nat j) (nat i))"
      using Level_new_cell[OF assms(1)] by blast
    with True show ?thesis
      by (simp add: Level_isWall_def Level_getFloorHeight_def gx gz)
  next
    case False
    then show ?thesis
      by (auto simp add: Level_isWall_def Level_getFloorHeight_def gx gz)
  qed
qed

text \<open>
  In the arena, the point \<open>(4.7, 5.9)\<close> rounds to the floor cell \<open>(1, 1)\<close>, and
  the point \<open>(4.7, -2.1)\<close> to row \<open>-1\<close>, outside the grid.
\<close>

theorem C3_point_queries_witness:
  "Level_new arena_map = Inr arena \<and>
   \<not> Level_isWall arena (47 / 10) (59 / 10) \<and>
   Level_getFloorHeight arena (47 / 10) (59 / 10) = 0 \<and>
   Level_isWall arena (47 / 10) (- 21 / 10) \<and>
   Level_getFloorHeight arena (47 / 10) (- 21 / 10) = - 100"
proof -
  have a: "\<not> Level_isWall arena (47 / 10) (59 / 10) \<and>
           Level_getFloorHeight arena (47 / 10) (59 / 10) = 0"
    using C3_point_queries[OF arena_new, of 1 "47 / 10" 1 "59 / 10"]
    by (simp add: arena_fields arena_cells parse_code_def)
  have b: "Level_isWall arena (47 / 10) (- 21 / 10) \<and>
           Level_getFloorHeight arena (47 / 10) (- 21 / 10) = - 100"
    using C3_point_queries[OF arena_new, of 1 "47 / 10" "- 1" "- 21 / 10"]
    by (simp add: arena_fields)
  from arena_new a b show ?thesis by blast
qed

section \<open>Parsing the map\<close>

text \<open>
  C7, as the code has it: level construction fails exactly when the map has no row
  at all, and then with the \<open>TypeError\<close> of reading \<open>mapData[0].length\<close>; there
  is no check of the rows' lengths.  For every map with at least one row, rectangular
  or not, construction succeeds: the grid has as many rows as the map and as many
  columns as the map's first row, an entry missing from a shorter row is parsed like an
  unknown code (a floor cell at height 0), and what a longer row has beyond the first
  row's length is ignored.
\<close>

theorem C7_parse_map:
  "(Level_new mapData = Inl TypeError \<longleftrightarrow> mapData = []) \<and>
   (mapData \<noteq> [] \<longrightarrow>
      (\<exists>lv. Level_new mapData = Inr lv \<and> wf_level lv \<and> cellSize lv = 4 \<and>
         rows lv = length mapData \<and> cols lv = length (hd mapData) \<and>
         (\<forall>j<rows lv. \<forall>i<cols lv.
            grid lv ! j ! i =
              parse_code (if i < length (mapData ! j) then Some (mapData ! j ! i) else None))))"
proof (cases mapData)
  case Nil
  then show ?thesis by (simp add: Level_new_def Level_parseMap_def)
next
  case (Cons row0 rest)
  then obtain lv where lv: "Level_new mapData = Inr lv"
    by (simp add: Level_new_def Level_parseMap_def Let_def)
  have "\<forall>j<rows lv. \<forall>i<cols lv.
          grid lv ! j ! i =
            parse_code (if i < length (mapData ! j) then Some (mapData ! j ! i) else None)"
    using Level_new_cell[OF lv] by (simp add: map_at_def)
  with lv Level_new_wf[OF lv] Level_new_fields(1,2,3)[OF lv] Cons show ?thesis
    by auto
qed

text \<open>
  A map whose second row is shorter than its first is accepted: the missing entry
  becomes a floor cell.
\<close>

theorem C7_ragged_counterexample:
  "Level_new [[0, 0], [0]] =
     Inr \<lparr>cellSize = 4,
          grid = [[parse_code (Some 0), parse_code (Some 0)], [parse_code (Some 0), parse_code None]],
          rows = 2, cols = 2, monsterSpawns = []\<rparr>"
  by (simp add: Level_new_def Level_parseMap_def map_at_def parse_spawns_def upt_conv_Cons
      numeral_2_eq_2)

theorem C7_parse_map_witness:
  "Level_new [] = Inl TypeError \<and> Level_new [[0, 0], [0]] \<noteq> Inl TypeError \<and>
   (\<exists>lv. Level_new [[0, 0], [0]] = Inr lv \<and> rows lv = 2 \<and> cols lv = 2 \<and>
      grid lv ! 1 ! 1 = parse_code None)"
  using C7_parse_map[of "[]"] C7_parse_map[of "[[0, 0], [0]]"]
  by auto

section \<open>Properties of the player's movement\<close>

lemma Player_canMoveTo_iff:
  "Player_canMoveTo lv q x z y \<longleftrightarrow>
     \<not> Level_isWall lv x z \<and> Level_getFloorHeight lv x z \<le> y + p_stepHeight q"
  by (auto simp: Player_canMoveTo_def Let_def)

lemma Player_accelerate_same [simp]:
  "p_position (Player_accelerate delta this) = p_position this"
  "p_stepHeight (Player_accelerate delta this) = p_stepHeight this"
  "p_height (Player_accelerate delta this) = p_height this"
  by (simp_all add: Player_accelerate_def Let_def)

lemma Player_moveX_fields:
  "p_position (Player_moveX lv dX cp cf p) =
     (if Player_canMoveTo lv p (vx cp + dX) (vz cp) cf
      then (p_position p)\<lparr>vx := vx (p_position p) + dX\<rparr> else p_position p)"
  "p_velocity (Player_moveX lv dX cp cf p) =
     (if Player_canMoveTo lv p (vx cp + dX) (vz cp) cf
      then p_velocity p else (p_velocity p)\<lparr>vx := 0\<rparr>)"
  "p_stepHeight (Player_moveX lv dX cp cf p) = p_stepHeight p"
  "p_height (Player_moveX lv dX cp cf p) = p_height p"
  by (simp_all add: Player_moveX_def)

lemma Player_moveZ_fields:
  "p_position (Player_moveZ lv dZ cp cf p) =
     (if Player_canMoveTo lv p (vx (p_position p)) (vz cp + dZ) cf
      then (p_position p)\<lparr>vz := vz (p_position p) + dZ\<rparr> else p_position p)"
  "p_velocity (Player_moveZ lv dZ cp cf p) =
     (if Player_canMoveTo lv p (vx (p_position p)) (vz cp + dZ) cf
      then p_velocity p else (p_velocity p)\<lparr>vz := 0\<rparr>)"
  "p_stepHeight (Player_moveZ lv dZ cp cf p) = p_stepHeight p"
  "p_height (Player_moveZ lv dZ cp cf p) = p_height p"
  by (simp_all add: Player_moveZ_def)

lemma Player_move_vy [simp]:
  "vy (p_position (Player_moveX lv dX cp cf p)) = vy (p_position p)"
  "vy (p_position (Player_moveZ lv dZ cp cf p)) = vy (p_position p)"
  by (simp_all add: Player_moveX_def Player_moveZ_def)

lemma Player_vertical_horizontal:
  "vx (p_position (Player_vertical lv dY p)) = vx (p_position p)"
  "vz (p_position (Player_vertical lv dY p)) = vz (p_position p)"
  "vx (p_velocity (Player_vertical lv dY p)) = vx (p_velocity p)"
  "vz (p_velocity (Player_vertical lv dY p)) = vz (p_velocity p)"
  by (simp_all add: Player_vertical_def Let_def)

lemma Player_vertical_fields:
  "vy (p_position (Player_vertical lv dY p)) =
     max (vy (p_position p) + dY)
         (Level_getFloorHeight lv (vx (p_position p)) (vz (p_position p)) + p_height p)"
  "p_onGround (Player_vertical lv dY p) \<longleftrightarrow>
     vy (p_position p) + dY <
       Level_getFloorHeight lv (vx (p_position p)) (vz (p_position p)) + p_height p"
  by (simp_all add: Player_vertical_def Let_def max_def)

lemma Player_vertical_ge:
  "vy (p_position this) + deltaY \<le> vy (p_position (Player_vertical lv deltaY this))"
  by (simp add: Player_vertical_def Let_def)

lemma Player_update_locked:
  assumes "p_isLocked this"
  shows "Player_update lv delta this =
     Player_vertical lv (snd (snd (Player_deltas delta (Player_accelerate delta this))))
       (Player_moveZ lv (fst (snd (Player_deltas delta (Player_accelerate delta this))))
          (p_position this) (Level_getFloorHeight lv (vx (p_position this)) (vz (p_position this)))
          (Player_moveX lv (fst (Player_deltas delta (Player_accelerate delta this)))
             (p_position this) (Level_getFloorHeight lv (vx (p_position this)) (vz (p_position this)))
             (Player_accelerate delta this)))"
  using assms by (simp add: Player_update_def Let_def split: prod.splits)

text \<open>The three players in the arena.\<close>

lemma walker_fields:
  "p_isLocked walker" "p_position walker = Vector3 4 (16 / 10) (59 / 10)"
  "p_stepHeight walker = 11 / 10" "p_height walker = 16 / 10"
  by (simp_all add: walker_def Player_new_def)

lemma walker_deltas:
  "Player_deltas (1 / 20) (Player_accelerate (1 / 20) walker) = (3 / 4, 3 / 4, - 3 / 40)"
  by (simp add: Player_deltas_def Player_accelerate_def walker_def Player_new_def Vector3_def
     normalize_def v_length_def Let_def applyQuaternion_def)

lemma walker_velocity: "vx (p_velocity (Player_accelerate (1 / 20) walker)) = 15"
  by (simp add: Player_accelerate_def walker_def Player_new_def Vector3_def
     normalize_def v_length_def Let_def)

lemma walker_update:
  "p_position (Player_update arena (1 / 20) walker) = Vector3 (19 / 4) (16 / 10) (59 / 10)"
  unfolding Player_update_locked[OF walker_fields(1)] walker_deltas
  by (simp add: Player_vertical_def Player_moveZ_def Player_moveX_def Player_canMoveTo_def
      walker_fields Vector3_def arena_queries)

lemma stander_fields:
  "p_isLocked stander" "p_position stander = Vector3 4 (16 / 10) 4"
  "p_stepHeight stander = 11 / 10" "p_height stander = 16 / 10"
  by (simp_all add: stander_def Player_new_def)

lemma stander_deltas: "Player_deltas 0 (Player_accelerate 0 stander) = (0, 0, 0)"
  by (simp add: Player_deltas_def)

lemma stander_update:
  "p_position (Player_update arena 0 stander) = Vector3 4 (16 / 10) 4"
  "p_onGround (Player_update arena 0 stander) = False"
  unfolding Player_update_locked[OF stander_fields(1)] stander_deltas
  by (simp_all add: Player_vertical_def Player_moveZ_def Player_moveX_def Player_canMoveTo_def
      stander_fields Vector3_def arena_queries)

lemma climber_fields:
  "p_isLocked climber" "p_position climber = Vector3 4 (46 / 10) 8"
  "p_stepHeight climber = 11 / 10" "p_height climber = 16 / 10"
  by (simp_all add: climber_def Player_new_def)

lemma climber_deltas:
  "Player_deltas (1 / 20) (Player_accelerate (1 / 20) climber) = (0, 0, - 3 / 40)"
  by (simp add: Player_deltas_def Player_accelerate_def climber_def Player_new_def Vector3_def
     normalize_def v_length_def Let_def applyQuaternion_def)

lemma climber_update:
  "p_position (Player_update arena (1 / 20) climber) = Vector3 4 (46 / 10) 8"
  unfolding Player_update_locked[OF climber_fields(1)] climber_deltas
  by (simp add: Player_vertical_def Player_moveZ_def Player_moveX_def Player_canMoveTo_def
      climber_fields Vector3_def arena_queries)

text \<open>
  C2: in an update of a player whose controls are locked, with \<open>(deltaX, deltaZ)\<close>
  the horizontal displacement of the tick and \<open>floorY\<close> the floor height at the
  position before the move: each axis test \<open>_canMoveTo\<close> succeeds if and only if the
  target is not a wall and its floor height is at most \<open>floorY + stepHeight\<close>; on the
  X axis the player moves by \<open>deltaX\<close> when the test succeeds, and otherwise keeps its
  x-coordinate and gets \<open>velocity.x = 0\<close>; the Z axis is treated the same way, its
  test taking the x-coordinate after the X step.
\<close>

theorem C2_step_up:
  assumes "p_isLocked this"
  shows "let p1 = Player_accelerate delta this;
             (deltaX, deltaZ, deltaY) = Player_deltas delta p1;
             cx = vx (p_position this);
             cz = vz (p_position this);
             floorY = Level_getFloorHeight lv cx cz;
             okX = (\<not> Level_isWall lv (cx + deltaX) cz \<and>
                    Level_getFloorHeight lv (cx + deltaX) cz \<le> floorY + p_stepHeight this);
             p' = Player_update lv delta this;
             x' = vx (p_position p');
             okZ = (\<not> Level_isWall lv x' (cz + deltaZ) \<and>
                    Level_getFloorHeight lv x' (cz + deltaZ) \<le> floorY + p_stepHeight this)
         in (Player_canMoveTo lv this (cx + deltaX) cz floorY \<longleftrightarrow> okX) \<and>
            (Player_canMoveTo lv this x' (cz + deltaZ) floorY \<longleftrightarrow> okZ) \<and>
            x' = (if okX then cx + deltaX else cx) \<and>
            vx (p_velocity p') = (if okX then vx (p_velocity p1) else 0) \<and>
            vz (p_position p') = (if okZ then cz + deltaZ else cz) \<and>
            vz (p_velocity p') = (if okZ then vz (p_velocity p1) else 0)"
  unfolding Player_update_locked[OF assms] Let_def
  by (simp add: Player_vertical_horizontal Player_moveZ_fields Player_moveX_fields
      Player_canMoveTo_iff split: prod.splits)

text \<open>
  A diagonal move in the arena, by \<open>0.75\<close> on each axis from \<open>(4, 5.9)\<close>: the X
  step succeeds, the Z step is blocked by the high platform of the next row.
\<close>

theorem C2_step_up_witness:
  "p_isLocked walker \<and>
   vx (p_position (Player_update arena (1 / 20) walker)) = 4 + 3 / 4 \<and>
   vx (p_velocity (Player_update arena (1 / 20) walker)) = 15 \<and>
   vz (p_position (Player_update arena (1 / 20) walker)) = 59 / 10 \<and>
   vz (p_velocity (Player_update arena (1 / 20) walker)) = 0"
proof -
  note step = C2_step_up[OF walker_fields(1), of "1 / 20" arena]
  from step have x: "vx (p_position (Player_update arena (1 / 20) walker)) = 19 / 4"
    by (simp add: walker_deltas walker_fields Vector3_def arena_queries Let_def)
  from step show ?thesis
    by (simp add: x walker_deltas walker_velocity walker_fields Vector3_def arena_queries Let_def)
qed

text \<open>
  C4, as the code has it: after the vertical step of an update of a player whose
  controls are locked, the player's Y is at least the floor height at the new
  \<open>(X, Z)\<close> plus the eye height; it is the larger of that bound and the integrated
  \<open>oldY + deltaY\<close>.  The grounded flag is true exactly when the integrated Y was
  strictly below the bound, and then Y equals the bound.  (When the integrated Y is
  the bound itself, Y equals the bound and the flag is false.)
\<close>

theorem C4_floor_snap:
  assumes "p_isLocked this"
  shows "let p' = Player_update lv delta this;
             (deltaX, deltaZ, deltaY) = Player_deltas delta (Player_accelerate delta this);
             y0 = vy (p_position this) + deltaY;
             bound = Level_getFloorHeight lv (vx (p_position p')) (vz (p_position p')) + p_height this
         in bound \<le> vy (p_position p') \<and>
            vy (p_position p') = max y0 bound \<and>
            (p_onGround p' \<longleftrightarrow> y0 < bound) \<and>
            (p_onGround p' \<longrightarrow> vy (p_position p') = bound)"
  unfolding Player_update_locked[OF assms] Let_def
  by (simp add: Player_vertical_fields Player_vertical_horizontal Player_moveZ_fields(4)
      Player_moveX_fields(4) split: prod.splits)

text \<open>
  A player standing on the floor, updated with \<open>delta = 0\<close>: Y is exactly the floor
  height plus the eye height, and the update leaves the grounded flag false.
\<close>

theorem C4_grounded_counterexample:
  "vy (p_position (Player_update arena 0 stander)) =
     Level_getFloorHeight arena (vx (p_position (Player_update arena 0 stander)))
       (vz (p_position (Player_update arena 0 stander))) + p_height stander \<and>
   \<not> p_onGround (Player_update arena 0 stander)"
  by (simp add: stander_update Vector3_def arena_queries stander_fields)

theorem C4_floor_snap_witness:
  "p_isLocked walker \<and>
   vy (p_position (Player_update arena (1 / 20) walker)) = 16 / 10 \<and>
   p_onGround (Player_update arena (1 / 20) walker)"
proof -
  have x: "vx (p_position (Player_update arena (1 / 20) walker)) = 19 / 4"
    and z: "vz (p_position (Player_update arena (1 / 20) walker)) = 59 / 10"
    by (simp_all add: walker_update Vector3_def)
  from C4_floor_snap[OF walker_fields(1), of arena "1 / 20"] show ?thesis
    by (simp add: x z walker_deltas walker_fields Vector3_def arena_queries Let_def)
qed

section \<open>The ceiling plays no part in movement\<close>

lemma erase_ceil_fields:
  assumes "erase_ceil lv1 = erase_ceil lv2"
  shows "cellSize lv1 = cellSize lv2" and "rows lv1 = rows lv2" and "cols lv1 = cols lv2"
    and "map (map (\<lambda>c. c\<lparr>ceilHeight := 0\<rparr>)) (grid lv1) = map (map (\<lambda>c. c\<lparr>ceilHeight := 0\<rparr>)) (grid lv2)"
proof -
  have "cellSize (erase_ceil lv1) = cellSize (erase_ceil lv2)"
    "rows (erase_ceil lv1) = rows (erase_ceil lv2)"
    "cols (erase_ceil lv1) = cols (erase_ceil lv2)"
    "grid (erase_ceil lv1) = grid (erase_ceil lv2)"
    using assms by simp_all
  then show "cellSize lv1 = cellSize lv2" and "rows lv1 = rows lv2" and "cols lv1 = cols lv2"
    and "map (map (\<lambda>c. c\<lparr>ceilHeight := 0\<rparr>)) (grid lv1) = map (map (\<lambda>c. c\<lparr>ceilHeight := 0\<rparr>)) (grid lv2)"
    by (simp_all add: erase_ceil_def)
qed

lemma erase_ceil_cell:
  assumes e: "erase_ceil lv1 = erase_ceil lv2" and w1: "wf_level lv1" and w2: "wf_level lv2"
    and j: "j < rows lv1" and i: "i < cols lv1"
  shows "isWall (grid lv1 ! j ! i) = isWall (grid lv2 ! j ! i)"
    and "height (grid lv1 ! j ! i) = height (grid lv2 ! j ! i)"
proof -
  note f = erase_ceil_fields[OF e]
  have j1: "j < length (grid lv1)" and j2: "j < length (grid lv2)"
    using w1 w2 j f(2) by (simp_all add: wf_level_def)
  have i1: "i < length (grid lv1 ! j)" and i2: "i < length (grid lv2 ! j)"
    using w1 w2 i j1 j2 f(3) by (simp_all add: wf_level_def list_all_length)
  have "map (map (\<lambda>c. c\<lparr>ceilHeight := 0\<rparr>)) (grid lv1) ! j ! i =
        map (map (\<lambda>c. c\<lparr>ceilHeight := 0\<rparr>)) (grid lv2) ! j ! i"
    using f(4) by simp
  then have eq: "(grid lv1 ! j ! i)\<lparr>ceilHeight := 0\<rparr> = (grid lv2 ! j ! i)\<lparr>ceilHeight := 0\<rparr>"
    using j1 j2 i1 i2 by simp
  have "isWall ((grid lv1 ! j ! i)\<lparr>ceilHeight := 0\<rparr>) = isWall ((grid lv2 ! j ! i)\<lparr>ceilHeight := 0\<rparr>)"
    "height ((grid lv1 ! j ! i)\<lparr>ceilHeight := 0\<rparr>) = height ((grid lv2 ! j ! i)\<lparr>ceilHeight := 0\<rparr>)"
    using eq by simp_all
  then show "isWall (grid lv1 ! j ! i) = isWall (grid lv2 ! j ! i)"
    and "height (grid lv1 ! j ! i) = height (grid lv2 ! j ! i)"
    by simp_all
qed

lemma erase_ceil_queries:
  assumes e: "erase_ceil lv1 = erase_ceil lv2" and w1: "wf_level lv1" and w2: "wf_level lv2"
  shows "Level_isWall lv1 = Level_isWall lv2"
    and "Level_getFloorHeight lv1 = Level_getFloorHeight lv2"
proof -
  note f = erase_ceil_fields[OF e]
  note c = erase_ceil_cell[OF e w1 w2]
  show "Level_isWall lv1 = Level_isWall lv2"
  proof (intro ext)
    fix x z
    show "Level_isWall lv1 x z = Level_isWall lv2 x z"
      unfolding Level_isWall_def Let_def f(1)[symmetric] f(2)[symmetric] f(3)[symmetric]
      using c(1) by auto
  qed
  show "Level_getFloorHeight lv1 = Level_getFloorHeight lv2"
  proof (intro ext)
    fix x z
    show "Level_getFloorHeight lv1 x z = Level_getFloorHeight lv2 x z"
      unfolding Level_getFloorHeight_def Let_def f(1)[symmetric] f(2)[symmetric] f(3)[symmetric]
      using c(2) by auto
  qed
qed

lemma queries_canMoveTo:
  assumes "Level_isWall lv1 = Level_isWall lv2"
    and "Level_getFloorHeight lv1 = Level_getFloorHeight lv2"
  shows "Player_canMoveTo lv1 = Player_canMoveTo lv2"
  by (intro ext) (simp add: Player_canMoveTo_def assms)

lemma queries_Player_update:
  assumes "Level_isWall lv1 = Level_isWall lv2"
    and "Level_getFloorHeight lv1 = Level_getFloorHeight lv2"
  shows "Player_update lv1 = Player_update lv2"
  by (intro ext)
    (unfold Player_update_def Player_moveX_def Player_moveZ_def Player_vertical_def
      queries_canMoveTo[OF assms] assms(2), rule refl)

lemma queries_Monster_update:
  assumes "Level_isWall lv1 = Level_isWall lv2"
    and "Level_getFloorHeight lv1 = Level_getFloorHeight lv2"
  shows "Monster_update lv1 = Monster_update lv2"
  by (intro ext) (unfold Monster_update_def assms, rule refl)

lemma low_arena_wf: "wf_level low_arena"
  using arena_wf by (simp add: wf_level_def low_arena_def list_all_iff)

lemma low_arena_erase: "erase_ceil arena = erase_ceil low_arena"
  by (simp add: erase_ceil_def low_arena_def comp_def)

lemma low_arena_ceil:
  "ceilHeight (grid low_arena ! 2 ! 1) = 1" "ceilHeight (grid arena ! 2 ! 1) = 4"
proof -
  have "(2::nat) < length (grid arena)" "(1::nat) < length (grid arena ! 2)"
    using arena_wf by (simp_all add: wf_level_def arena_fields list_all_length)
  then show "ceilHeight (grid low_arena ! 2 ! 1) = 1" by (simp add: low_arena_def)
  show "ceilHeight (grid arena ! 2 ! 1) = 4" by (simp add: arena_cells parse_code_def)
qed

text \<open>
  C10: for two well-shaped levels that are identical except in the \<open>ceilHeight\<close> of
  their cells, \<open>isWall\<close>, \<open>getFloorHeight\<close>, the step-up test, the vertical snap,
  the whole player update and the whole monster update are the same functions, so
  every resulting position is the same; and the vertical step never puts the player
  below the integrated \<open>oldY + deltaY\<close>, whatever the ceiling: nothing blocks a rise.
\<close>

theorem C10_ceiling_ignored:
  assumes "wf_level lv1" and "wf_level lv2" and "erase_ceil lv1 = erase_ceil lv2"
  shows "Level_isWall lv1 = Level_isWall lv2 \<and>
         Level_getFloorHeight lv1 = Level_getFloorHeight lv2 \<and>
         Player_canMoveTo lv1 = Player_canMoveTo lv2 \<and>
         Player_vertical lv1 = Player_vertical lv2 \<and>
         Player_update lv1 = Player_update lv2 \<and>
         Monster_update lv1 = Monster_update lv2 \<and>
         (\<forall>deltaY p. vy (p_position p) + deltaY \<le> vy (p_position (Player_vertical lv1 deltaY p)))"
proof -
  note q = erase_ceil_queries[OF assms(3,1,2)]
  have "Player_vertical lv1 = Player_vertical lv2"
    by (intro ext) (unfold Player_vertical_def q(2), rule refl)
  with q queries_canMoveTo[OF q] queries_Player_update[OF q] queries_Monster_update[OF q]
    Player_vertical_ge
  show ?thesis by blast
qed

text \<open>
  The arena with every ceiling lowered to 1: the player on the high platform (floor
  height 3) is updated as in the arena itself and stays at Y = 4.6, above both
  ceilings.
\<close>

theorem C10_ceiling_ignored_witness:
  "wf_level arena \<and> wf_level low_arena \<and> erase_ceil arena = erase_ceil low_arena \<and>
   Player_update low_arena (1 / 20) climber = Player_update arena (1 / 20) climber \<and>
   p_position (Player_update low_arena (1 / 20) climber) = Vector3 4 (46 / 10) 8 \<and>
   Level_getFloorHeight low_arena 4 8 = 3 \<and>
   ceilHeight (grid low_arena ! 2 ! 1) = 1 \<and> ceilHeight (grid arena ! 2 ! 1) = 4"
proof -
  note same = C10_ceiling_ignored[OF arena_wf low_arena_wf low_arena_erase]
  from same have u: "Player_update low_arena = Player_update arena"
    and f: "Level_getFloorHeight low_arena = Level_getFloorHeight arena"
    by simp_all
  show ?thesis
    unfolding u f using low_arena_ceil
    by (simp add: arena_wf low_arena_wf low_arena_erase climber_update arena_queries)
qed

section \<open>Properties of the monsters and of the instant shot\<close>

lemma Monster_takeDamage_fields [simp]:
  "m_health (Monster_takeDamage amount m) = m_health m - amount"
  "m_state (Monster_takeDamage amount m) = m_state m"
  "m_position (Monster_takeDamage amount m) = m_position m"
  "m_timers (Monster_takeDamage amount m) = Suc (m_timers m)"
  "m_mesh (Monster_takeDamage amount m) = m_mesh m"
  by (simp_all add: Monster_takeDamage_def)

lemma Monster_timeout_fields:
  "m_health (Monster_timeout m) = m_health m"
  "m_position (Monster_timeout m) = m_position m"
  "m_state (Monster_timeout m) = (if 0 < m_timers m \<and> m_health m \<le> 0 then Dead else m_state m)"
  by (simp_all add: Monster_timeout_def Monster_die_def Let_def split: nat.splits)

lemma Monster_new_fields [simp]:
  "m_health (Monster_new mid ty x z) = (if ty = Demon then 100 else 40)"
  "m_state (Monster_new mid ty x z) = Idle"
  "m_timers (Monster_new mid ty x z) = 0"
  "m_position (Monster_new mid ty x z) = Vector3 x 0 z"
  by (simp_all add: Monster_new_def)

text \<open>
  C6, as the code has it: \<open>takeDamage\<close> changes the health at once and leaves
  the state as it is; the agent becomes Dead when a callback that \<open>takeDamage\<close>
  scheduled runs and finds \<open>health <= 0\<close>.  \<open>takeDamage(20)\<close> applied 2 times to
  a fresh 40-health agent, or 5 times to a fresh 100-health agent, leaves it with
  health 0 and still Idle, and Dead once a callback has run; applied once to a fresh
  100-health agent it leaves health exactly 80 and the agent alive, also after the
  callback.
\<close>

theorem C6_damage:
  "m_health (Monster_takeDamage amount m) = m_health m - amount \<and>
   m_state (Monster_takeDamage amount m) = m_state m \<and>
   m_health (Monster_timeout m) = m_health m \<and>
   m_state (Monster_timeout m) = (if 0 < m_timers m \<and> m_health m \<le> 0 then Dead else m_state m) \<and>
   (let imp2 = (Monster_takeDamage 20 ^^ 2) (Monster_new mid Imp x z)
    in m_health imp2 = 0 \<and> m_state imp2 = Idle \<and> m_state (Monster_timeout imp2) = Dead) \<and>
   (let demon5 = (Monster_takeDamage 20 ^^ 5) (Monster_new mid Demon x z)
    in m_health demon5 = 0 \<and> m_state demon5 = Idle \<and> m_state (Monster_timeout demon5) = Dead) \<and>
   (let demon1 = Monster_takeDamage 20 (Monster_new mid Demon x z)
    in m_health demon1 = 80 \<and> m_state demon1 = Idle \<and>
       m_health (Monster_timeout demon1) = 80 \<and> m_state (Monster_timeout demon1) = Idle)"
  by (simp add: Monster_timeout_fields eval_nat_numeral Let_def)

text \<open>
  Right after the second \<open>takeDamage(20)\<close> a 40-health imp is not Dead.
\<close>

theorem C6_not_dead_at_once_counterexample:
  "m_state (Monster_takeDamage 20 (Monster_takeDamage 20 (Monster_new 0 Imp 4 4))) \<noteq> Dead"
  by simp

theorem C6_damage_witness:
  "m_health ((Monster_takeDamage 20 ^^ 2) (Monster_new 0 Imp 4 4)) = 0 \<and>
   m_state ((Monster_takeDamage 20 ^^ 2) (Monster_new 0 Imp 4 4)) = Idle \<and>
   m_state dead_imp = Dead"
  using C6_damage[of 20 "Monster_new 0 Imp 4 4" 0 4 4]
  by (simp add: dead_imp_def Let_def eval_nat_numeral)

lemma Monster_update_dead: "m_state m = Dead \<Longrightarrow> Monster_update lv delta pp r1 r2 m = m"
  by (simp add: Monster_update_def)

lemma Monster_step_dead:
  assumes "m_state m = Dead"
  shows "m_state (Monster_step lv m e) = Dead"
    and "m_position (Monster_step lv m e) = m_position m"
    and "m_health (Monster_step lv m e) = m_health m - damage_of e"
  using assms by (cases e; simp add: Monster_update_dead Monster_timeout_fields)+

lemma Monster_steps_dead:
  assumes "m_state m = Dead"
  shows "m_state (foldl (Monster_step lv) m evs) = Dead \<and>
         m_position (foldl (Monster_step lv) m evs) = m_position m \<and>
         m_health (foldl (Monster_step lv) m evs) = m_health m - sum_list (map damage_of evs)"
  using assms
proof (induction evs arbitrary: m)
  case Nil
  then show ?case by simp
next
  case (Cons e evs)
  from Cons.IH[OF Monster_step_dead(1)[OF Cons.prems, of lv e]] Monster_step_dead(2,3)[OF Cons.prems, of lv e]
  show ?case by simp
qed

text \<open>
  C5, as the code has it: for an agent in the Dead state, \<open>update\<close> changes
  nothing at all, and \<open>takeDamage\<close> leaves the position and the Dead state but
  still subtracts the amount from the health.  Over any sequence of updates, hits and
  callbacks the agent stays Dead where it is, and its health goes down by the sum of
  the amounts of the hits.
\<close>

theorem C5_dead_agent:
  assumes "m_state m = Dead"
  shows "Monster_update lv delta playerPos r1 r2 m = m \<and>
         m_position (Monster_takeDamage amount m) = m_position m \<and>
         m_state (Monster_takeDamage amount m) = Dead \<and>
         m_health (Monster_takeDamage amount m) = m_health m - amount \<and>
         (let m' = foldl (Monster_step lv) m evs
          in m_state m' = Dead \<and> m_position m' = m_position m \<and>
             m_health m' = m_health m - sum_list (map damage_of evs))"
  using assms Monster_steps_dead[OF assms, of lv evs]
  by (simp add: Monster_update_dead Let_def)

lemma dead_imp_fields:
  "m_state dead_imp = Dead" "m_health dead_imp = 0" "m_position dead_imp = Vector3 4 0 4"
  by (simp_all add: dead_imp_def Monster_timeout_fields)

text \<open>
  The imp killed by two hits has health 0; one more \<open>takeDamage(20)\<close> makes it
  \<open>-20\<close>.
\<close>

theorem C5_health_counterexample:
  "m_state dead_imp = Dead \<and> m_health dead_imp = 0 \<and>
   m_health (Monster_takeDamage 20 dead_imp) = - 20"
  by (simp add: dead_imp_fields)

theorem C5_dead_agent_witness:
  "m_state dead_imp = Dead \<and>
   Monster_update arena (1 / 20) (Vector3 4 (16 / 10) 8) 0 0 dead_imp = dead_imp \<and>
   m_position (foldl (Monster_step arena) dead_imp
      [TakeDamage 20, Update (1 / 20) (Vector3 4 (16 / 10) 8) 0 0, Timeout]) = Vector3 4 0 4 \<and>
   m_health (foldl (Monster_step arena) dead_imp
      [TakeDamage 20, Update (1 / 20) (Vector3 4 (16 / 10) 8) 0 0, Timeout]) = - 20"
  using C5_dead_agent[OF dead_imp_fields(1), of arena "1 / 20" "Vector3 4 (16 / 10) 8" 0 0 20
      "[TakeDamage 20, Update (1 / 20) (Vector3 4 (16 / 10) 8) 0 0, Timeout]"]
  by (simp add: dead_imp_fields Let_def)

lemma valid_target_cond:
  "valid_target pp pd m \<longleftrightarrow>
     m_state m \<noteq> Dead \<and>
     (let toMonster = subVectors (m_position m) pp
      in v_length toMonster < 50 \<and> angleTo pd (normalize toMonster) < 2 / 10)"
  by (simp add: valid_target_def distanceTo_def Let_def)

lemma onShoot_split:
  "onShoot playerPos playerDir monsters =
     takeWhile (\<lambda>m. \<not> valid_target playerPos playerDir m) monsters @
     (case dropWhile (\<lambda>m. \<not> valid_target playerPos playerDir m) monsters of
        [] \<Rightarrow> []
      | m # rest \<Rightarrow> Monster_takeDamage 20 m # rest)"
  by (induction monsters) (auto simp: valid_target_cond Let_def)

lemma damaged_head_health:
  "map m_health (case xs of [] \<Rightarrow> [] | m # rest \<Rightarrow> Monster_takeDamage 20 m # rest) =
     (case xs of [] \<Rightarrow> [] | m # rest \<Rightarrow> (m_health m - 20) # map m_health rest)"
  by (cases xs) simp_all

lemma onShoot_health:
  "map m_health (onShoot playerPos playerDir monsters) =
     map m_health (takeWhile (\<lambda>m. \<not> valid_target playerPos playerDir m) monsters) @
     (case dropWhile (\<lambda>m. \<not> valid_target playerPos playerDir m) monsters of
        [] \<Rightarrow> []
      | m # rest \<Rightarrow> (m_health m - 20) # map m_health rest)"
  unfolding onShoot_split by (simp only: map_append damaged_head_health)

lemma onShoot_unmoved:
  "map m_state (onShoot playerPos playerDir monsters) = map m_state monsters"
  "map m_position (onShoot playerPos playerDir monsters) = map m_position monsters"
  by (induction monsters) (simp_all add: Let_def)

text \<open>
  C9: a shot leaves every monster before the first valid target as it is, calls
  \<open>takeDamage(20)\<close> on the first valid target, and leaves every monster after it as
  it is; with no valid target nothing changes.  So the health of the first valid
  target goes down by 20 and every other health stays, and no state and no position
  changes.  A valid target is a monster that is not Dead, closer than 50 to the firer
  and less than 0.2 rad off the aim direction.
\<close>

theorem C9_first_valid_target:
  "onShoot playerPos playerDir monsters =
     takeWhile (\<lambda>m. \<not> valid_target playerPos playerDir m) monsters @
     (case dropWhile (\<lambda>m. \<not> valid_target playerPos playerDir m) monsters of
        [] \<Rightarrow> []
      | m # rest \<Rightarrow> Monster_takeDamage 20 m # rest) \<and>
   map m_health (onShoot playerPos playerDir monsters) =
     map m_health (takeWhile (\<lambda>m. \<not> valid_target playerPos playerDir m) monsters) @
     (case dropWhile (\<lambda>m. \<not> valid_target playerPos playerDir m) monsters of
        [] \<Rightarrow> []
      | m # rest \<Rightarrow> (m_health m - 20) # map m_health rest) \<and>
   map m_state (onShoot playerPos playerDir monsters) = map m_state monsters \<and>
   map m_position (onShoot playerPos playerDir monsters) = map m_position monsters"
  using onShoot_split[of playerPos playerDir monsters]
    onShoot_health[of playerPos playerDir monsters]
    onShoot_unmoved[of playerPos playerDir monsters]
  by blast

lemma sqrt_100: "sqrt 100 = 10"
  using real_sqrt_abs[of 10] by simp

lemma sqrt_25: "sqrt 25 = 5"
  using real_sqrt_abs[of 5] by simp

lemma far_imp_valid: "valid_target (Vector3 0 0 0) (Vector3 0 0 (- 1)) far_imp"
  by (simp add: valid_target_def far_imp_def Monster_new_def Vector3_def distanceTo_def
      subVectors_def v_length_def normalize_def angleTo_def dot_def clamp_def sqrt_100 Let_def)

lemma near_imp_valid: "valid_target (Vector3 0 0 0) (Vector3 0 0 (- 1)) near_imp"
  by (simp add: valid_target_def near_imp_def Monster_new_def Vector3_def distanceTo_def
      subVectors_def v_length_def normalize_def angleTo_def dot_def clamp_def sqrt_25 Let_def)

lemma sqrt_9: "sqrt 9 = 3"
  using real_sqrt_abs[of 3] by simp

lemma fallen_imp_fields:
  "m_state fallen_imp = Dead" "m_health fallen_imp = 0" "m_position fallen_imp = Vector3 0 0 (- 3)"
  by (simp_all add: fallen_imp_def Monster_timeout_fields)

lemma fallen_imp_in_cone:
  "distanceTo (m_position fallen_imp) (Vector3 0 0 0) = 3"
  "angleTo (Vector3 0 0 (- 1)) (normalize (subVectors (m_position fallen_imp) (Vector3 0 0 0))) = 0"
  by (simp_all add: fallen_imp_fields Vector3_def distanceTo_def subVectors_def v_length_def
      normalize_def angleTo_def dot_def clamp_def sqrt_9 Let_def)

lemma imp_healths: "m_health far_imp = 40" "m_health near_imp = 40"
  by (simp_all add: far_imp_def near_imp_def)

text \<open>
  A shooter at the origin who looks down the negative Z axis, and three imps straight
  ahead: a dead one at distance 3, then in the list a live one at distance 10 and a
  live one at distance 5.  The dead one is passed over although it is in range and in
  the cone, and the live one at distance 10 is hit: the healths go from 0, 40, 40 to
  0, 20, 40.
\<close>

theorem C9_first_valid_target_witness:
  "m_state fallen_imp = Dead \<and>
   distanceTo (m_position fallen_imp) (Vector3 0 0 0) = 3 \<and>
   angleTo (Vector3 0 0 (- 1)) (normalize (subVectors (m_position fallen_imp) (Vector3 0 0 0))) = 0 \<and>
   valid_target (Vector3 0 0 0) (Vector3 0 0 (- 1)) far_imp \<and>
   valid_target (Vector3 0 0 0) (Vector3 0 0 (- 1)) near_imp \<and>
   distanceTo (m_position near_imp) (Vector3 0 0 0) < distanceTo (m_position far_imp) (Vector3 0 0 0) \<and>
   map m_health [fallen_imp, far_imp, near_imp] = [0, 40, 40] \<and>
   map m_health (onShoot (Vector3 0 0 0) (Vector3 0 0 (- 1)) [fallen_imp, far_imp, near_imp]) =
     [0, 20, 40] \<and>
   onShoot (Vector3 0 0 0) (Vector3 0 0 (- 1)) [fallen_imp, far_imp, near_imp] =
     [fallen_imp, Monster_takeDamage 20 far_imp, near_imp]"
proof -
  have d: "\<not> valid_target (Vector3 0 0 0) (Vector3 0 0 (- 1)) fallen_imp"
    by (simp add: valid_target_def fallen_imp_fields)
  have n: "distanceTo (m_position near_imp) (Vector3 0 0 0) <
      distanceTo (m_position far_imp) (Vector3 0 0 0)"
    by (simp add: far_imp_def near_imp_def distanceTo_def subVectors_def v_length_def
        Vector3_def sqrt_100 sqrt_25)
  from C9_first_valid_target[of "Vector3 0 0 0" "Vector3 0 0 (- 1)" "[fallen_imp, far_imp, near_imp]"]
  have s: "map m_health (onShoot (Vector3 0 0 0) (Vector3 0 0 (- 1)) [fallen_imp, far_imp, near_imp]) =
       [0, 20, 40] \<and>
     onShoot (Vector3 0 0 0) (Vector3 0 0 (- 1)) [fallen_imp, far_imp, near_imp] =
       [fallen_imp, Monster_takeDamage 20 far_imp, near_imp]"
    by (simp add: d far_imp_valid fallen_imp_fields imp_healths)
  from fallen_imp_fields(1,2) fallen_imp_in_cone far_imp_valid near_imp_valid n imp_healths s
  show ?thesis by simp
qed

section \<open>Properties of the projectile\<close>

lemma sort_key_head:
  assumes "sort_key f xs = h # t"
  shows "h \<in> set xs" and "\<forall>x\<in>set xs. f h \<le> f x"
proof -
  have s: "set xs = insert h (set t)"
    using set_sort[of f xs] assms by simp
  then show "h \<in> set xs" by simp
  have "sorted (map f (h # t))"
    using sorted_sort_key[of f xs] assms by simp
  then have "\<forall>y\<in>set t. f h \<le> f y" by simp
  with s show "\<forall>x\<in>set xs. f h \<le> f x" by simp
qed

lemma sort_key_Nil_iff: "sort_key f xs = [] \<longleftrightarrow> xs = []"
  using length_sort[of f xs] by (metis length_0_conv)

text \<open>The nearest distance of a non-empty list of intersections.\<close>

lemma sort_key_head_Min:
  assumes "sort_key f xs = h # t"
  shows "f h = Min (f ` set xs)"
proof -
  have "f h \<in> f ` set xs" using sort_key_head(1)[OF assms] by simp
  moreover have "\<forall>y\<in>f ` set xs. f h \<le> y" using sort_key_head(2)[OF assms] by simp
  ultimately show ?thesis by (intro Min_eqI[symmetric]) auto
qed

lemma closest_hit_key:
  "hit_key (closest_hit (sort_key i_distance ls) (sort_key i_distance ms)) = nearest ls ms"
proof (cases "sort_key i_distance ls")
  case Nil
  then have l: "ls = []" by (simp add: sort_key_Nil_iff)
  show ?thesis
  proof (cases "sort_key i_distance ms")
    case Nil
    then have "ms = []" by (simp add: sort_key_Nil_iff)
    with l show ?thesis by (simp add: closest_hit_def hit_key_def nearest_def)
  next
    case (Cons m mt)
    then have "ms \<noteq> []" by auto
    with l Cons sort_key_head_Min[OF Cons] show ?thesis
      by (simp add: closest_hit_def hit_key_def nearest_def)
  qed
next
  case lc: (Cons l lt)
  then have l: "ls \<noteq> []" by auto
  show ?thesis
  proof (cases "sort_key i_distance ms")
    case Nil
    then have "ms = []" by (simp add: sort_key_Nil_iff)
    with l lc sort_key_head_Min[OF lc] show ?thesis
      by (simp add: closest_hit_def hit_key_def nearest_def)
  next
    case (Cons m mt)
    then have "ms \<noteq> []" by auto
    with l lc Cons sort_key_head_Min[OF lc] sort_key_head_Min[OF Cons] show ?thesis
      by (simp add: closest_hit_def hit_key_def nearest_def)
  qed
qed

lemma nearest_set:
  assumes "set ls' = set ls" and "set ms' = set ms"
  shows "nearest ls' ms' = nearest ls ms"
proof -
  have "ls' = [] \<longleftrightarrow> ls = []" "ms' = [] \<longleftrightarrow> ms = []"
    using assms by (metis set_empty)+
  with assms show ?thesis by (simp add: nearest_def)
qed

lemma level_candidates_set:
  "set lc' = set lc \<Longrightarrow> set (level_candidates rc r lc') = set (level_candidates rc r lc)"
  by (simp add: level_candidates_def)

lemma monster_candidates_set:
  "set ms' = set ms \<Longrightarrow> set (monster_candidates rc r ms') = set (monster_candidates rc r ms)"
  by (simp add: monster_candidates_def)

lemma findHit_candidates:
  "Projectile_findHit rc r lc ms =
     closest_hit (sort_key i_distance (level_candidates rc r lc))
                 (sort_key i_distance (monster_candidates rc r ms))"
  by (simp add: Projectile_findHit_def intersectObjects_def level_candidates_def
      monster_candidates_def Let_def)

lemma findHit_key: "hit_key (Projectile_findHit rc r lc ms) =
    nearest (level_candidates rc r lc) (monster_candidates rc r ms)"
  by (simp add: findHit_candidates closest_hit_key)

lemma findHit_order:
  assumes "set lc' = set lc" and "set ms' = set ms"
  shows "hit_key (Projectile_findHit rc r lc' ms') = hit_key (Projectile_findHit rc r lc ms)"
  unfolding findHit_key
  by (rule nearest_set) (simp_all add: level_candidates_set[OF assms(1)] monster_candidates_set[OF assms(2)])

lemma closest_hit_None:
  "closest_hit ls ms = None \<longleftrightarrow> ls = [] \<and> ms = []"
  by (auto simp: closest_hit_def split: list.splits option.splits)

lemma findHit_None:
  "Projectile_findHit rc r lc ms = None \<longleftrightarrow>
     level_candidates rc r lc = [] \<and> monster_candidates rc r ms = []"
  by (simp add: findHit_candidates closest_hit_None sort_key_Nil_iff)

lemma closest_hit_Some:
  assumes "closest_hit (sort_key i_distance ls) (sort_key i_distance ms) = Some (h, ty)"
  shows "(ty = Wall \<longrightarrow> h \<in> set ls) \<and> (ty = MonsterHit \<longrightarrow> h \<in> set ms) \<and>
         (\<forall>c\<in>set ls \<union> set ms. i_distance h \<le> i_distance c)"
proof (cases "sort_key i_distance ls")
  case Nil
  then have l: "ls = []" by (simp add: sort_key_Nil_iff)
  show ?thesis
  proof (cases "sort_key i_distance ms")
    case Nil
    with assms l show ?thesis by (simp add: closest_hit_def)
  next
    case (Cons m mt)
    with assms l sort_key_head[OF Cons] show ?thesis
      by (auto simp: closest_hit_def)
  qed
next
  case lc: (Cons l lt)
  note hl = sort_key_head[OF lc]
  show ?thesis
  proof (cases "sort_key i_distance ms")
    case Nil
    then have "ms = []" by (simp add: sort_key_Nil_iff)
    with assms lc hl show ?thesis
      by (auto simp: closest_hit_def)
  next
    case (Cons m mt)
    note hm = sort_key_head[OF Cons]
    show ?thesis
    proof (cases "i_distance m < i_distance l")
      case True
      with assms lc Cons have "h = m" "ty = MonsterHit" by (simp_all add: closest_hit_def)
      with hm hl True show ?thesis by fastforce
    next
      case False
      with assms lc Cons have "h = l" "ty = Wall" by (simp_all add: closest_hit_def)
      with hm hl False show ?thesis by fastforce
    qed
  qed
qed

lemma findHit_Some:
  assumes "Projectile_findHit rc r lc ms = Some (h, ty)"
  shows "(ty = Wall \<longrightarrow> h \<in> set (level_candidates rc r lc)) \<and>
         (ty = MonsterHit \<longrightarrow> h \<in> set (monster_candidates rc r ms)) \<and>
         (\<forall>c\<in>set (level_candidates rc r lc) \<union> set (monster_candidates rc r ms).
            i_distance h \<le> i_distance c)"
  using assms unfolding findHit_candidates by (rule closest_hit_Some)

lemma monster_candidates_object:
  assumes "h \<in> set (monster_candidates rc r ms)"
  shows "\<exists>m\<in>set ms. m_state m \<noteq> Dead \<and> m_mesh m = i_object h"
  using assms by (auto simp: monster_candidates_def raycast_object_def)

lemma damage_found_distinct:
  assumes "distinct (map (\<lambda>m. obj_id (m_mesh m)) ms)"
  shows "damage_found ob ms =
     map (\<lambda>m. if obj_id (m_mesh m) = obj_id ob then Monster_takeDamage 20 m else m) ms"
  using assms
proof (induction ms)
  case Nil
  then show ?case by simp
next
  case (Cons m ms)
  show ?case
  proof (cases "obj_id (m_mesh m) = obj_id ob")
    case True
    with Cons.prems have "obj_id ob \<notin> (\<lambda>m. obj_id (m_mesh m)) ` set ms" by simp
    then have "\<forall>m'\<in>set ms. obj_id (m_mesh m') \<noteq> obj_id ob" by force
    then have "map (\<lambda>m. if obj_id (m_mesh m) = obj_id ob then Monster_takeDamage 20 m else m) ms = ms"
      by (induction ms) auto
    with True show ?thesis by simp
  next
    case False
    with Cons show ?thesis by simp
  qed
qed

lemma Projectile_update_hit:
  assumes "pr_alive this" and "0 < r_far (Projectile_ray delta this)"
    and "Projectile_findHit rc (Projectile_ray delta this) lc ms = Some (h, ty)"
  shows "Projectile_update rc delta lc ms this =
     ((Projectile_moved delta this)\<lparr>pr_alive := False\<rparr>,
      if ty = MonsterHit then damage_found (i_object h) ms else ms)"
  using assms
  by (simp add: Projectile_update_def Projectile_ray_def Projectile_moved_def Let_def
      Projectile_onHit_def Projectile_destroy_def)

lemma Projectile_update_miss:
  assumes "pr_alive this"
    and "\<not> 0 < r_far (Projectile_ray delta this) \<or>
         Projectile_findHit rc (Projectile_ray delta this) lc ms = None"
  shows "Projectile_update rc delta lc ms this =
     ((Projectile_moved delta this)\<lparr>pr_alive :=
         \<not> v_length (pr_position (Projectile_moved delta this)) > 1000\<rparr>, ms)"
  using assms
  by (auto simp add: Projectile_update_def Projectile_ray_def Projectile_moved_def Let_def
      Projectile_destroy_def)

lemma v_length_multiplyScalar: "v_length (multiplyScalar v s) = \<bar>s\<bar> * v_length v"
proof -
  have "vx v * s * (vx v * s) + vy v * s * (vy v * s) + vz v * s * (vz v * s) =
        (s * s) * (vx v * vx v + vy v * vy v + vz v * vz v)"
    by (simp add: algebra_simps)
  then show ?thesis
    by (simp add: v_length_def multiplyScalar_def real_sqrt_mult)
qed

lemma Projectile_ray_end:
  assumes "v_length (pr_direction this) = 1" and "0 \<le> pr_speed this * delta"
  shows "v_add (r_origin (Projectile_ray delta this))
           (multiplyScalar (r_direction (Projectile_ray delta this)) (r_far (Projectile_ray delta this))) =
         pr_position (Projectile_moved delta this)"
  using assms by (simp add: Projectile_ray_def Projectile_moved_def v_length_multiplyScalar)

lemma Projectile_update_position:
  assumes "pr_alive this"
  shows "pr_position (fst (Projectile_update rc delta lc ms this)) = pr_position (Projectile_moved delta this)"
    and "pr_lastPosition (fst (Projectile_update rc delta lc ms this)) = pr_position this"
proof -
  show "pr_position (fst (Projectile_update rc delta lc ms this)) = pr_position (Projectile_moved delta this)"
  proof (cases "0 < r_far (Projectile_ray delta this) \<and>
      Projectile_findHit rc (Projectile_ray delta this) lc ms \<noteq> None")
    case True
    then obtain p where "Projectile_findHit rc (Projectile_ray delta this) lc ms = Some p" by blast
    then obtain h ty where f: "Projectile_findHit rc (Projectile_ray delta this) lc ms = Some (h, ty)"
      by (cases p) simp
    from True have "0 < r_far (Projectile_ray delta this)" by simp
    from Projectile_update_hit[OF assms this f] show ?thesis by simp
  next
    case False
    then have "\<not> 0 < r_far (Projectile_ray delta this) \<or>
        Projectile_findHit rc (Projectile_ray delta this) lc ms = None" by blast
    from Projectile_update_miss[OF assms this] show ?thesis by simp
  qed
  show "pr_lastPosition (fst (Projectile_update rc delta lc ms this)) = pr_position this"
  proof (cases "0 < r_far (Projectile_ray delta this) \<and>
      Projectile_findHit rc (Projectile_ray delta this) lc ms \<noteq> None")
    case True
    then obtain p where "Projectile_findHit rc (Projectile_ray delta this) lc ms = Some p" by blast
    then obtain h ty where f: "Projectile_findHit rc (Projectile_ray delta this) lc ms = Some (h, ty)"
      by (cases p) simp
    from True have "0 < r_far (Projectile_ray delta this)" by simp
    from Projectile_update_hit[OF assms this f] show ?thesis by (simp add: Projectile_moved_def)
  next
    case False
    then have "\<not> 0 < r_far (Projectile_ray delta this) \<or>
        Projectile_findHit rc (Projectile_ray delta this) lc ms = None" by blast
    from Projectile_update_miss[OF assms this] show ?thesis by (simp add: Projectile_moved_def)
  qed
qed

lemma Projectile_new_direction:
  "v_length (pr_direction (Projectile_new p d)) = (if v_length d = 0 then 0 else 1)"
proof -
  have n: "normalize d = multiplyScalar d (1 / (if v_length d = 0 then 1 else v_length d))"
    by (simp add: normalize_def multiplyScalar_def Let_def)
  have "0 \<le> v_length d" by (simp add: v_length_def)
  then show ?thesis
    unfolding Projectile_new_def by (simp add: n v_length_multiplyScalar)
qed

lemma damaged_health:
  "map m_health (map (\<lambda>m. if P m then Monster_takeDamage 20 m else m) ms) =
     map (\<lambda>m. if P m then m_health m - 20 else m_health m) ms"
  by (induction ms) simp_all

text \<open>
  C1: in a tick of a live projectile with a positive displacement, the ray cast
  starts at the previous position and, for a unit direction and a step forward, ends
  at the new position.  Let the candidates be all intersections of that segment with
  the level's meshes and with the monsters that are not dead.  If there is none, no
  monster changes.  Otherwise the hit acted upon is a candidate whose distance is
  least among all candidates, level or monster; its distance and its kind are the
  same for every other order (and repetition) of the level objects and of the
  monsters; the projectile is destroyed; and if the hit is on a monster, that
  monster, and no other, takes 20 damage: its health goes down by 20 and every other
  health stays.  (Monsters have sprites of their own: the identities of their meshes
  are distinct.)
\<close>

theorem C1_closest_hit:
  assumes "pr_alive this" and "0 < r_far (Projectile_ray delta this)"
    and "distinct (map (\<lambda>m. obj_id (m_mesh m)) monsters)"
  shows "let r = Projectile_ray delta this;
             walls = level_candidates rc r levelChildren;
             agents = monster_candidates rc r monsters;
             (this', monsters') = Projectile_update rc delta levelChildren monsters this
         in r_origin r = pr_lastPosition this' \<and>
            (v_length (pr_direction this) = 1 \<and> 0 \<le> pr_speed this * delta \<longrightarrow>
               v_add (r_origin r) (multiplyScalar (r_direction r) (r_far r)) = pr_position this') \<and>
            (case Projectile_findHit rc r levelChildren monsters of
              None \<Rightarrow> walls = [] \<and> agents = [] \<and> monsters' = monsters
            | Some (hit, ty) \<Rightarrow>
                (\<forall>c\<in>set walls \<union> set agents. i_distance hit \<le> i_distance c) \<and>
                (\<forall>lc' ms'. set lc' = set levelChildren \<and> set ms' = set monsters \<longrightarrow>
                   hit_key (Projectile_findHit rc r lc' ms') = Some (i_distance hit, ty)) \<and>
                \<not> pr_alive this' \<and>
                (case ty of
                   Wall \<Rightarrow> hit \<in> set walls \<and> monsters' = monsters
                 | MonsterHit \<Rightarrow>
                     hit \<in> set agents \<and>
                     (\<exists>m\<in>set monsters. m_state m \<noteq> Dead \<and> m_mesh m = i_object hit) \<and>
                     monsters' =
                       map (\<lambda>m. if obj_id (m_mesh m) = obj_id (i_object hit)
                                then Monster_takeDamage 20 m else m) monsters \<and>
                     map m_health monsters' =
                       map (\<lambda>m. if obj_id (m_mesh m) = obj_id (i_object hit)
                                then m_health m - 20 else m_health m) monsters))"
proof -
  let ?r = "Projectile_ray delta this"
  let ?u = "Projectile_update rc delta levelChildren monsters this"
  have o: "r_origin ?r = pr_lastPosition (fst ?u)"
    by (simp add: Projectile_update_position(2)[OF assms(1)] Projectile_ray_def)
  have e: "v_length (pr_direction this) = 1 \<and> 0 \<le> pr_speed this * delta \<longrightarrow>
      v_add (r_origin ?r) (multiplyScalar (r_direction ?r) (r_far ?r)) = pr_position (fst ?u)"
    by (simp add: Projectile_update_position(1)[OF assms(1)] Projectile_ray_end)
  have c: "case Projectile_findHit rc ?r levelChildren monsters of
              None \<Rightarrow> level_candidates rc ?r levelChildren = [] \<and>
                monster_candidates rc ?r monsters = [] \<and> snd ?u = monsters
            | Some (hit, ty) \<Rightarrow>
                (\<forall>c\<in>set (level_candidates rc ?r levelChildren) \<union> set (monster_candidates rc ?r monsters).
                   i_distance hit \<le> i_distance c) \<and>
                (\<forall>lc' ms'. set lc' = set levelChildren \<and> set ms' = set monsters \<longrightarrow>
                   hit_key (Projectile_findHit rc ?r lc' ms') = Some (i_distance hit, ty)) \<and>
                \<not> pr_alive (fst ?u) \<and>
                (case ty of
                   Wall \<Rightarrow> hit \<in> set (level_candidates rc ?r levelChildren) \<and> snd ?u = monsters
                 | MonsterHit \<Rightarrow>
                     hit \<in> set (monster_candidates rc ?r monsters) \<and>
                     (\<exists>m\<in>set monsters. m_state m \<noteq> Dead \<and> m_mesh m = i_object hit) \<and>
                     snd ?u =
                       map (\<lambda>m. if obj_id (m_mesh m) = obj_id (i_object hit)
                                then Monster_takeDamage 20 m else m) monsters \<and>
                     map m_health (snd ?u) =
                       map (\<lambda>m. if obj_id (m_mesh m) = obj_id (i_object hit)
                                then m_health m - 20 else m_health m) monsters)"
  proof (cases "Projectile_findHit rc ?r levelChildren monsters")
    case None
    with Projectile_update_miss[OF assms(1), of delta rc levelChildren monsters]
      findHit_None[of rc ?r levelChildren monsters]
    show ?thesis by simp
  next
    case (Some p)
    obtain hit ty where p: "p = (hit, ty)" by (cases p)
    note f = Some[unfolded p]
    note u = Projectile_update_hit[OF assms(1,2) f]
    note s = findHit_Some[OF f]
    have k: "\<forall>lc' ms'. set lc' = set levelChildren \<and> set ms' = set monsters \<longrightarrow>
        hit_key (Projectile_findHit rc ?r lc' ms') = Some (i_distance hit, ty)"
    proof (intro allI impI)
      fix lc' ms'
      assume "set lc' = set levelChildren \<and> set ms' = set monsters"
      then have "hit_key (Projectile_findHit rc ?r lc' ms') =
          hit_key (Projectile_findHit rc ?r levelChildren monsters)"
        by (intro findHit_order) simp_all
      then show "hit_key (Projectile_findHit rc ?r lc' ms') = Some (i_distance hit, ty)"
        by (simp add: f hit_key_def)
    qed
    show ?thesis
    proof (cases ty)
      case Wall
      with f u s k show ?thesis by simp
    next
      case MonsterHit
      with s have "hit \<in> set (monster_candidates rc ?r monsters)" by simp
      from this monster_candidates_object[OF this] MonsterHit f u s k
        damage_found_distinct[OF assms(3)]
      show ?thesis by (simp add: damaged_health)
    qed
  qed
  from o e c show ?thesis
    by (simp add: Let_def split_beta)
qed

text \<open>
  C8, as the code has it: a tick leaves a destroyed projectile as it is.  A live one
  moves by its displacement, and is alive afterwards exactly when the tick's segment
  hit nothing and the new position is no farther than 1000 from the origin
  \<open>(0, 0, 0)\<close> of the world; where it was fired from plays no part.
\<close>

theorem C8_projectile_lifetime:
  "let (this', monsters') = Projectile_update rc delta levelChildren monsters this;
       r = Projectile_ray delta this;
       hit = (0 < r_far r \<and> Projectile_findHit rc r levelChildren monsters \<noteq> None)
   in if pr_alive this
      then pr_position this' = v_add (pr_position this)
             (multiplyScalar (pr_direction this) (pr_speed this * delta)) \<and>
           (pr_alive this' \<longleftrightarrow> \<not> hit \<and> v_length (pr_position this') \<le> 1000)
      else this' = this \<and> monsters' = monsters"
proof (cases "pr_alive this")
  case False
  then show ?thesis by (simp add: Projectile_update_def Let_def)
next
  case True
  show ?thesis
  proof (cases "0 < r_far (Projectile_ray delta this) \<and>
      Projectile_findHit rc (Projectile_ray delta this) levelChildren monsters \<noteq> None")
    case h: True
    then obtain p where
      "Projectile_findHit rc (Projectile_ray delta this) levelChildren monsters = Some p"
      by blast
    then obtain hit ty where
      f: "Projectile_findHit rc (Projectile_ray delta this) levelChildren monsters = Some (hit, ty)"
      by (cases p) simp
    from h have far: "0 < r_far (Projectile_ray delta this)" by simp
    from Projectile_update_hit[OF True far f] f far True show ?thesis
      by (simp add: Let_def Projectile_moved_def)
  next
    case False
    then have "\<not> 0 < r_far (Projectile_ray delta this) \<or>
         Projectile_findHit rc (Projectile_ray delta this) levelChildren monsters = None"
      by blast
    from Projectile_update_miss[OF True this] False True show ?thesis
      by (auto simp add: Let_def Projectile_moved_def)
  qed
qed

lemma bolt_fields:
  "pr_alive bolt" "pr_position bolt = Vector3 0 1 0" "pr_direction bolt = Vector3 0 0 (- 1)"
  "pr_speed bolt = 40"
  by (simp_all add: bolt_def Projectile_new_def normalize_def v_length_def Vector3_def)

lemma bolt_ray:
  "Projectile_ray (1 / 4) bolt =
     \<lparr>r_origin = Vector3 0 1 0, r_direction = Vector3 0 0 (- 1), r_far = 10\<rparr>"
  by (simp add: Projectile_ray_def bolt_fields multiplyScalar_def v_length_def Vector3_def sqrt_100)

lemma bolt_far: "0 < r_far (Projectile_ray (1 / 4) bolt)"
  by (simp add: bolt_ray)

lemma imps_distinct: "distinct (map (\<lambda>m. obj_id (m_mesh m)) [far_imp, near_imp])"
  by (simp add: far_imp_def near_imp_def Monster_new_def)

lemma bolt_findHit:
  "Projectile_findHit z_cast (Projectile_ray (1 / 4) bolt) [wall8] [far_imp, near_imp] =
     Some (\<lparr>i_distance = 5, i_point = Vector3 0 0 (- 5), i_object = m_mesh near_imp\<rparr>, MonsterHit)"
  by (simp add: Projectile_findHit_def intersectObjects_def raycast_object_def z_cast_def
      closest_hit_def bolt_ray wall8_def far_imp_def near_imp_def Monster_new_def Vector3_def Let_def)

text \<open>
  A wall 8 ahead, an imp 10 ahead and an imp 5 ahead, the farther imp first in the
  list: the nearer imp is hit, the healths go from 40, 40 to 40, 20, and the
  projectile is destroyed.
\<close>

theorem C1_closest_hit_witness:
  "pr_alive bolt \<and> 0 < r_far (Projectile_ray (1 / 4) bolt) \<and>
   distinct (map (\<lambda>m. obj_id (m_mesh m)) [far_imp, near_imp]) \<and>
   level_candidates z_cast (Projectile_ray (1 / 4) bolt) [wall8] =
     [\<lparr>i_distance = 8, i_point = Vector3 0 2 (- 8), i_object = wall8\<rparr>] \<and>
   \<not> pr_alive (fst (Projectile_update z_cast (1 / 4) [wall8] [far_imp, near_imp] bolt)) \<and>
   snd (Projectile_update z_cast (1 / 4) [wall8] [far_imp, near_imp] bolt) =
     [far_imp, Monster_takeDamage 20 near_imp] \<and>
   map m_health [far_imp, near_imp] = [40, 40] \<and>
   map m_health (snd (Projectile_update z_cast (1 / 4) [wall8] [far_imp, near_imp] bolt)) =
     [40, 20]"
proof -
  have w: "level_candidates z_cast (Projectile_ray (1 / 4) bolt) [wall8] =
     [\<lparr>i_distance = 8, i_point = Vector3 0 2 (- 8), i_object = wall8\<rparr>]"
    by (simp add: level_candidates_def raycast_object_def z_cast_def bolt_ray wall8_def Vector3_def)
  have i: "obj_id (m_mesh far_imp) = 1" "obj_id (m_mesh near_imp) = 2"
    by (simp_all add: far_imp_def near_imp_def Monster_new_def)
  note hit = C1_closest_hit[OF bolt_fields(1) bolt_far imps_distinct, of z_cast "[wall8]"]
  from hit
  have a: "\<not> pr_alive (fst (Projectile_update z_cast (1 / 4) [wall8] [far_imp, near_imp] bolt)) \<and>
   snd (Projectile_update z_cast (1 / 4) [wall8] [far_imp, near_imp] bolt) =
     [far_imp, Monster_takeDamage 20 near_imp]"
    by (simp add: bolt_findHit Let_def i split: prod.splits)
  from hit
  have h: "map m_health (snd (Projectile_update z_cast (1 / 4) [wall8] [far_imp, near_imp] bolt)) =
     [40, 20]"
    by (simp add: bolt_findHit Let_def i imp_healths split: prod.splits)
  have "map m_health [far_imp, near_imp] = [40, 40]"
    by (simp add: imp_healths)
  with bolt_fields(1) bolt_far imps_distinct w a h show ?thesis by blast
qed

lemma sqrt_400: "sqrt 400 = 20"
  using real_sqrt_abs[of 20] by simp

lemma sqrt_1010: "sqrt 1020100 = 1010"
  using real_sqrt_abs[of 1010] by simp

lemma stray_fields:
  "pr_alive stray_a" "pr_position stray_a = Vector3 990 0 0" "pr_direction stray_a = Vector3 1 0 0"
  "pr_speed stray_a = 40"
  "pr_alive stray_b" "pr_position stray_b = Vector3 0 0 0" "pr_direction stray_b = Vector3 1 0 0"
  "pr_speed stray_b = 40"
  by (simp_all add: stray_a_def stray_b_def Projectile_new_def normalize_def v_length_def Vector3_def)

lemma no_cast_findHit: "Projectile_findHit no_cast r [] [] = None"
  by (simp add: Projectile_findHit_def intersectObjects_def closest_hit_def)

lemma stray_a_update:
  "Projectile_update no_cast (1 / 2) [] [] stray_a =
     (stray_a\<lparr>pr_lastPosition := Vector3 990 0 0, pr_position := Vector3 1010 0 0, pr_alive := False\<rparr>, [])"
  by (simp add: Projectile_update_def stray_fields no_cast_findHit multiplyScalar_def v_add_def
      v_length_def Vector3_def Projectile_destroy_def sqrt_1010 Let_def)

lemma stray_b_update:
  "Projectile_update no_cast (1 / 2) [] [] stray_b =
     (stray_b\<lparr>pr_lastPosition := Vector3 0 0 0, pr_position := Vector3 20 0 0\<rparr>, [])"
  by (simp add: Projectile_update_def stray_fields no_cast_findHit multiplyScalar_def v_add_def
      v_length_def Vector3_def Projectile_destroy_def sqrt_400 Let_def)

text \<open>
  Two projectiles that hit nothing and have travelled 20 from where they were fired:
  the one fired from \<open>x = 990\<close> is destroyed, the one fired from the origin is
  alive.
\<close>

theorem C8_travel_counterexample:
  "pr_position stray_a = Vector3 990 0 0 \<and> pr_alive stray_a \<and>
   distanceTo (pr_position (fst (Projectile_update no_cast (1 / 2) [] [] stray_a))) (Vector3 990 0 0) = 20 \<and>
   \<not> pr_alive (fst (Projectile_update no_cast (1 / 2) [] [] stray_a)) \<and>
   pr_position stray_b = Vector3 0 0 0 \<and> pr_alive stray_b \<and>
   distanceTo (pr_position (fst (Projectile_update no_cast (1 / 2) [] [] stray_b))) (Vector3 0 0 0) = 20 \<and>
   pr_alive (fst (Projectile_update no_cast (1 / 2) [] [] stray_b))"
  by (simp add: stray_a_update stray_b_update stray_fields distanceTo_def subVectors_def
      v_length_def Vector3_def sqrt_400)

theorem C8_projectile_lifetime_witness:
  "pr_alive stray_b \<and>
   pr_alive (fst (Projectile_update no_cast (1 / 2) [] [] stray_b)) \<and>
   pr_position (fst (Projectile_update no_cast (1 / 2) [] [] stray_b)) = Vector3 20 0 0 \<and>
   \<not> pr_alive (fst (Projectile_update no_cast (1 / 2) [] [] stray_a)) \<and>
   v_length (pr_position (fst (Projectile_update no_cast (1 / 2) [] [] stray_a))) = 1010 \<and>
   \<not> pr_alive (fst (Projectile_update z_cast (1 / 4) [wall8] [far_imp, near_imp] bolt))"
proof -
  have b: "pr_alive (fst (Projectile_update no_cast (1 / 2) [] [] stray_b)) \<and>
   pr_position (fst (Projectile_update no_cast (1 / 2) [] [] stray_b)) = Vector3 20 0 0"
    using C8_projectile_lifetime[of no_cast "1 / 2" "[]" "[]" stray_b]
    by (simp add: Let_def stray_fields no_cast_findHit multiplyScalar_def v_add_def
      v_length_def Vector3_def sqrt_400 split: prod.splits)
  have a: "\<not> pr_alive (fst (Projectile_update no_cast (1 / 2) [] [] stray_a)) \<and>
   v_length (pr_position (fst (Projectile_update no_cast (1 / 2) [] [] stray_a))) = 1010"
    using C8_projectile_lifetime[of no_cast "1 / 2" "[]" "[]" stray_a]
    by (simp add: Let_def stray_fields no_cast_findHit multiplyScalar_def v_add_def
      v_length_def Vector3_def sqrt_1010 split: prod.splits)
  have c: "\<not> pr_alive (fst (Projectile_update z_cast (1 / 4) [wall8] [far_imp, near_imp] bolt))"
    using C8_projectile_lifetime[of z_cast "1 / 4" "[wall8]" "[far_imp, near_imp]" bolt]
    by (simp add: Let_def bolt_fields bolt_findHit bolt_far split: prod.splits)
  from a b c stray_fields(5) show ?thesis by blast
qed

end
